theory Spec2Isabelle
  imports Complex_Main
begin

section \<open>JavaScript values held by the menu store\<close>

text \<open>
  The store of \<^verbatim>\<open>src/scripts/menuBuilder.js\<close> keeps plain JavaScript objects whose
  properties are filled from form fields (\<^verbatim>\<open>parseInt\<close>, \<^verbatim>\<open>parseFloat\<close>, trimmed text),
  from \<^verbatim>\<open>Date.now()\<close> and, through \<^verbatim>\<open>importJSON\<close>, from whatever a JSON document holds.
  A property can therefore be any JavaScript value, and the code tells values apart
  by truthiness (\<^verbatim>\<open>!x\<close>, \<^verbatim>\<open>x || d\<close>), strict equality and numeric comparison only.

  A number is \<^verbatim>\<open>NaN\<close>, an infinity (\<open>Infinity True\<close> is the positive one) or finite.
  The program does no arithmetic on its numbers, so a finite double is kept as the
  rational it denotes; \<^verbatim>\<open>-0\<close> and \<^verbatim>\<open>0\<close> are the same value \<open>Fin 0\<close>.
\<close>

datatype jsnum = NaN | Infinity bool | Fin rat

text \<open>
  An array or an object is held by reference: \<open>Arr r xs\<close> is the array with identity
  \<open>r\<close> and elements \<open>xs\<close>. Copying such a value from one property to another, as the
  import does with \<^verbatim>\<open>category.id\<close>, copies the reference, and \<^verbatim>\<open>JSON.parse\<close> gives every
  array and object of its result an identity of its own. No property below needs
  that two values with one identity hold the same elements.
\<close>

type_synonym ref = nat

datatype jsval =
    Undefined
  | Null
  | Boolean bool
  | Number jsnum
  | Str string
  | Arr ref "jsval list"
  | Obj ref "(string \<times> jsval) list"

text \<open>\<^verbatim>\<open>Boolean(x)\<close>, the test behind \<^verbatim>\<open>!x\<close>, \<^verbatim>\<open>x || d\<close> and \<^verbatim>\<open>filter(Boolean)\<close>.\<close>

fun truthy :: "jsval \<Rightarrow> bool" where
  "truthy Undefined = False"
| "truthy Null = False"
| "truthy (Boolean b) = b"
| "truthy (Number NaN) = False"
| "truthy (Number (Infinity p)) = True"
| "truthy (Number (Fin r)) = (r \<noteq> 0)"
| "truthy (Str s) = (s \<noteq> [])"
| "truthy (Arr r xs) = True"
| "truthy (Obj r kvs) = True"

text \<open>\<^verbatim>\<open>a || b\<close>.\<close>

definition or_else :: "jsval \<Rightarrow> jsval \<Rightarrow> jsval" where
  "or_else a b = (if truthy a then a else b)"

text \<open>
  \<^verbatim>\<open>a === b\<close> (and \<^verbatim>\<open>a !== b\<close>, its negation). \<^verbatim>\<open>NaN\<close> is equal to nothing, not even
  to itself. Two arrays, or two objects, are equal exactly when they are the same
  object, whatever they hold.
\<close>

fun strict_eq :: "jsval \<Rightarrow> jsval \<Rightarrow> bool" where
  "strict_eq Undefined Undefined = True"
| "strict_eq Null Null = True"
| "strict_eq (Boolean a) (Boolean b) = (a = b)"
| "strict_eq (Number a) (Number b) = (a \<noteq> NaN \<and> a = b)"
| "strict_eq (Str a) (Str b) = (a = b)"
| "strict_eq (Arr a xs) (Arr b ys) = (a = b)"
| "strict_eq (Obj a xs) (Obj b ys) = (a = b)"
| "strict_eq _ _ = False"

text \<open>\<^verbatim>\<open>a > b\<close> on numbers; any comparison with \<^verbatim>\<open>NaN\<close> is false.\<close>

fun num_gt :: "jsnum \<Rightarrow> jsnum \<Rightarrow> bool" where
  "num_gt NaN b = False"
| "num_gt a NaN = False"
| "num_gt (Fin a) (Fin b) = (b < a)"
| "num_gt (Fin a) (Infinity q) = (\<not> q)"
| "num_gt (Infinity p) (Fin b) = p"
| "num_gt (Infinity p) (Infinity q) = (p \<and> \<not> q)"

definition num_lt :: "jsnum \<Rightarrow> jsnum \<Rightarrow> bool" where
  "num_lt a b = num_gt b a"

definition isNaN :: "jsnum \<Rightarrow> bool" where
  "isNaN a = (a = NaN)"

text \<open>
  \<^verbatim>\<open>String.prototype.trim\<close> and \<^verbatim>\<open>toLowerCase\<close> on the ASCII part of a string
  (a \<open>char\<close> is a byte).
\<close>

definition whitespace :: "char \<Rightarrow> bool" where
  "whitespace c = (c \<in> set [CHR '' '', CHR 0x09, CHR 0x0A, CHR 0x0B, CHR 0x0C, CHR 0x0D])"

definition trim :: "string \<Rightarrow> string" where
  "trim s = rev (dropWhile whitespace (rev (dropWhile whitespace s)))"

definition lower_char :: "char \<Rightarrow> char" where
  "lower_char c =
     (case map_of (zip ''ABCDEFGHIJKLMNOPQRSTUVWXYZ'' ''abcdefghijklmnopqrstuvwxyz'') c of
        None \<Rightarrow> c
      | Some l \<Rightarrow> l)"

definition toLowerCase :: "string \<Rightarrow> string" where
  "toLowerCase s = map lower_char s"

text \<open>
  Reading a property. On \<^verbatim>\<open>null\<close> and \<^verbatim>\<open>undefined\<close> the read raises a TypeError
  (\<open>nullish\<close>); on an object it gives the property's value, \<^verbatim>\<open>undefined\<close> when the
  object has no such property; numbers, strings, booleans and arrays have none of the
  properties the program reads (\<^verbatim>\<open>menu\<close>, \<^verbatim>\<open>id\<close>, \<^verbatim>\<open>name\<close>, \<^verbatim>\<open>products\<close>, ...). An object
  lists each of its keys once.
\<close>

fun nullish :: "jsval \<Rightarrow> bool" where
  "nullish Undefined = True"
| "nullish Null = True"
| "nullish _ = False"

fun getProp :: "string \<Rightarrow> jsval \<Rightarrow> jsval" where
  "getProp k (Obj r kvs) = (case map_of kvs k of None \<Rightarrow> Undefined | Some v \<Rightarrow> v)"
| "getProp k _ = Undefined"

fun isArray :: "jsval \<Rightarrow> bool" where
  "isArray (Arr r xs) = True"
| "isArray _ = False"

fun elems :: "jsval \<Rightarrow> jsval list" where
  "elems (Arr r xs) = xs"
| "elems _ = []"


section \<open>The store\<close>

text \<open>
  The objects of the three tables and of the draft option buffer, with the properties
  the code gives them (\<^verbatim>\<open>id\<close>, \<^verbatim>\<open>name\<close>, ... prefixed by the table). The state of a
  \<^verbatim>\<open>MenuBuilder\<close> is these four arrays; \<^verbatim>\<open>currentStep\<close> only steers the page.

  An operation is modelled from the values it reads off its form to the tables it
  leaves and the toast it shows. The form elements it reads are taken to exist, and
  the redrawing of the tables and the copy written to \<^verbatim>\<open>localStorage\<close> are left out.
\<close>

record category =
  cat_id :: jsval
  cat_name :: jsval

record product =
  prod_id :: jsval
  prod_categoryId :: jsval
  prod_name :: jsval
  prod_description :: jsval
  prod_price :: jsval
  prod_image :: jsval

record menu_option =
  opt_id :: jsval
  opt_label :: jsval
  opt_value :: jsval

record modifier =
  mod_id :: jsval
  mod_productId :: jsval
  mod_name :: jsval
  mod_min :: jsval
  mod_max :: jsval
  mod_type :: jsval
  mod_position :: jsval
  mod_options :: "menu_option list"

record store =
  categories :: "category list"
  products :: "product list"
  modifiers :: "modifier list"
  currentOptions :: "menu_option list"

text \<open>
  What an operation tells the user: the success toast, an error toast (one
  constructor per \<^verbatim>\<open>showToast(..., 'error')\<close> of the source), or a TypeError that
  nothing catches.
\<close>

datatype rejection =
    NoCategoryName | DuplicateCategory
  | NoCategorySelected | NoProductName | NoDescription | InvalidPrice
  | NoProductSelected | NoModifierName | MinAboveMax | NoOptions
  | NoImportText | InvalidFormat | ImportFailed

datatype outcome = Success | Error rejection | Uncaught

text \<open>
  \<^verbatim>\<open>Date.now()\<close> is the argument \<open>now\<close> of an operation, stored as a number. The
  import reads the clock once for every id it has to make up; the model gives all of
  them the one reading \<open>now\<close>, and no property below depends on two made-up ids being
  different.
\<close>

definition fresh_id :: "int \<Rightarrow> jsval" where
  "fresh_id now = Number (Fin (of_int now))"


subsection \<open>Categories\<close>

text \<open>
  \<^verbatim>\<open>this.categories.some(cat => cat.name.toLowerCase() === name.toLowerCase())\<close>:
  \<open>None\<close> is the TypeError of \<^verbatim>\<open>toLowerCase\<close> on a name that is not a string, raised
  when \<^verbatim>\<open>some\<close> reaches such a category before a match.
\<close>

fun some_same_name :: "string \<Rightarrow> category list \<Rightarrow> bool option" where
  "some_same_name name [] = Some False"
| "some_same_name name (cat # cats) =
     (case cat_name cat of
        Str n \<Rightarrow> if toLowerCase n = toLowerCase name then Some True
                 else some_same_name name cats
      | _ \<Rightarrow> None)"

definition addCategory :: "int \<Rightarrow> string \<Rightarrow> store \<Rightarrow> outcome \<times> store" where
  "addCategory now nameInput s =
     (let name = trim nameInput in
      if name = [] then (Error NoCategoryName, s)
      else case some_same_name name (categories s) of
             None \<Rightarrow> (Uncaught, s)
           | Some True \<Rightarrow> (Error DuplicateCategory, s)
           | Some False \<Rightarrow>
               (Success, s\<lparr>categories := categories s @ [\<lparr>cat_id = fresh_id now, cat_name = Str name\<rparr>]\<rparr>))"

definition deleteCategory :: "jsval \<Rightarrow> store \<Rightarrow> outcome \<times> store" where
  "deleteCategory ident s =
     (let cats = filter (\<lambda>cat. \<not> strict_eq (cat_id cat) ident) (categories s);
          prods = filter (\<lambda>prod. \<not> strict_eq (prod_categoryId prod) ident) (products s);
          mods = filter (\<lambda>modifier. \<not> list_ex (\<lambda>prod. strict_eq (prod_id prod) (mod_productId modifier)) prods)
                   (modifiers s)
      in (Success, s\<lparr>categories := cats, products := prods, modifiers := mods\<rparr>))"


subsection \<open>Products\<close>

text \<open>
  \<open>categoryId\<close> and \<open>price\<close> are the results of \<^verbatim>\<open>parseInt\<close> and \<^verbatim>\<open>parseFloat\<close> on the
  form fields; the three texts are the fields' values before \<^verbatim>\<open>trim\<close>.
\<close>

definition addProduct ::
  "int \<Rightarrow> jsnum \<Rightarrow> string \<Rightarrow> string \<Rightarrow> jsnum \<Rightarrow> string \<Rightarrow> store \<Rightarrow> outcome \<times> store" where
  "addProduct now categoryId nameInput descriptionInput price imageInput s =
     (let name = trim nameInput; description = trim descriptionInput; image = trim imageInput in
      if \<not> truthy (Number categoryId) then (Error NoCategorySelected, s)
      else if name = [] then (Error NoProductName, s)
      else if description = [] then (Error NoDescription, s)
      else if isNaN price \<or> num_lt price (Fin 0) then (Error InvalidPrice, s)
      else (Success,
            s\<lparr>products := products s @
                 [\<lparr>prod_id = fresh_id now, prod_categoryId = Number categoryId,
                   prod_name = Str name, prod_description = Str description,
                   prod_price = Number price, prod_image = Str image\<rparr>]\<rparr>))"

definition deleteProduct :: "jsval \<Rightarrow> store \<Rightarrow> outcome \<times> store" where
  "deleteProduct ident s =
     (Success,
      s\<lparr>products := filter (\<lambda>prod. \<not> strict_eq (prod_id prod) ident) (products s),
        modifiers := filter (\<lambda>modifier. \<not> strict_eq (mod_productId modifier) ident) (modifiers s)\<rparr>)"


subsection \<open>Modifiers\<close>

text \<open>
  \<open>productId\<close>, \<open>minN\<close>, \<open>maxN\<close> (the source's \<^verbatim>\<open>min\<close> and \<^verbatim>\<open>max\<close>), \<open>type\<close> and
  \<open>position\<close> are results of \<^verbatim>\<open>parseInt\<close>.
  The new modifier takes a copy of the draft buffer, which is then emptied.
\<close>

definition saveModifier ::
  "int \<Rightarrow> jsnum \<Rightarrow> string \<Rightarrow> jsnum \<Rightarrow> jsnum \<Rightarrow> jsnum \<Rightarrow> jsnum \<Rightarrow> store \<Rightarrow> outcome \<times> store" where
  "saveModifier now productId nameInput minN maxN type position s =
     (let name = trim nameInput in
      if \<not> truthy (Number productId) then (Error NoProductSelected, s)
      else if name = [] then (Error NoModifierName, s)
      else if num_gt minN maxN then (Error MinAboveMax, s)
      else if length (currentOptions s) = 0 then (Error NoOptions, s)
      else (Success,
            s\<lparr>modifiers := modifiers s @
                 [\<lparr>mod_id = fresh_id now, mod_productId = Number productId,
                   mod_name = Str name, mod_min = Number minN, mod_max = Number maxN,
                   mod_type = Number type, mod_position = Number position,
                   mod_options = currentOptions s\<rparr>],
              currentOptions := []\<rparr>))"

definition deleteModifier :: "jsval \<Rightarrow> store \<Rightarrow> outcome \<times> store" where
  "deleteModifier ident s =
     (Success, s\<lparr>modifiers := filter (\<lambda>modifier. \<not> strict_eq (mod_id modifier) ident) (modifiers s)\<rparr>)"

text \<open>\<open>confirmed\<close> is the answer to the \<^verbatim>\<open>confirm(...)\<close> dialogue.\<close>

definition clearAllData :: "bool \<Rightarrow> store \<Rightarrow> store" where
  "clearAllData confirmed s =
     (if confirmed then s\<lparr>categories := [], products := [], modifiers := [], currentOptions := []\<rparr>
      else s)"


section \<open>Export\<close>

text \<open>
  \<^verbatim>\<open>generateJSON\<close> builds the export document out of object literals and of the arrays
  that \<^verbatim>\<open>map\<close> and \<^verbatim>\<open>filter\<close> return. These are new objects that nothing else holds and
  nothing compares, so the document is a tree of literals (\<open>ObjectLit\<close>, \<open>ArrayLit\<close>)
  whose leaves (\<open>Val\<close>) are the values taken from the tables.
\<close>

datatype export =
    Val jsval
  | ArrayLit "export list"
  | ObjectLit "(string \<times> export) list"

text \<open>Reading a property of a literal, the elements of an array, and \<^verbatim>\<open>Boolean(x)\<close>.\<close>

fun getField :: "string \<Rightarrow> export \<Rightarrow> export" where
  "getField k (ObjectLit kts) = (case map_of kts k of None \<Rightarrow> Val Undefined | Some t \<Rightarrow> t)"
| "getField k (ArrayLit ts) = Val Undefined"
| "getField k (Val v) = Val (getProp k v)"

fun items :: "export \<Rightarrow> export list" where
  "items (ArrayLit ts) = ts"
| "items (ObjectLit kts) = []"
| "items (Val v) = map Val (elems v)"

fun truthy_node :: "export \<Rightarrow> bool" where
  "truthy_node (Val v) = truthy v"
| "truthy_node (ArrayLit ts) = True"
| "truthy_node (ObjectLit kts) = True"

text \<open>
  \<open>created\<close> is the text of \<^verbatim>\<open>new Date().toISOString()\<close>. A category without products
  maps to \<^verbatim>\<open>null\<close>, which \<^verbatim>\<open>filter(Boolean)\<close> then drops. \<open>categoryProducts\<close> is the
  source's local of that name; \<open>productModifiers\<close> is the filter it nests in each
  product.
\<close>

definition exportOption :: "menu_option \<Rightarrow> export" where
  "exportOption opt =
     ObjectLit [(''id'', Val (opt_id opt)), (''label'', Val (opt_label opt)),
                (''value'', Val (opt_value opt))]"

definition exportModifier :: "modifier \<Rightarrow> export" where
  "exportModifier modifier =
     ObjectLit [(''id'', Val (mod_id modifier)), (''name'', Val (mod_name modifier)),
                (''min'', Val (mod_min modifier)), (''max'', Val (mod_max modifier)),
                (''type'', Val (mod_type modifier)), (''position'', Val (mod_position modifier)),
                (''options'', ArrayLit (map exportOption (mod_options modifier)))]"

definition productModifiers :: "store \<Rightarrow> product \<Rightarrow> modifier list" where
  "productModifiers s product =
     filter (\<lambda>modifier. strict_eq (mod_productId modifier) (prod_id product)) (modifiers s)"

definition exportProduct :: "store \<Rightarrow> product \<Rightarrow> export" where
  "exportProduct s product =
     ObjectLit [(''id'', Val (prod_id product)), (''name'', Val (prod_name product)),
                (''description'', Val (prod_description product)),
                (''price'', Val (prod_price product)),
                (''image'', Val (or_else (prod_image product) Null)),
                (''modifiers'', ArrayLit (map exportModifier (productModifiers s product)))]"

definition categoryProducts :: "store \<Rightarrow> category \<Rightarrow> product list" where
  "categoryProducts s category =
     filter (\<lambda>prod. strict_eq (prod_categoryId prod) (cat_id category)) (products s)"

definition exportCategory :: "store \<Rightarrow> category \<Rightarrow> export" where
  "exportCategory s category =
     (if length (categoryProducts s category) = 0 then Val Null
      else ObjectLit [(''id'', Val (cat_id category)), (''name'', Val (cat_name category)),
                      (''products'',
                         ArrayLit (map (exportProduct s) (categoryProducts s category)))])"

definition count :: "'a list \<Rightarrow> export" where
  "count xs = Val (Number (Fin (of_nat (length xs))))"

definition generateJSON :: "string \<Rightarrow> store \<Rightarrow> export" where
  "generateJSON created s =
     ObjectLit
       [(''menu'', ArrayLit (filter truthy_node (map (exportCategory s) (categories s)))),
        (''metadata'',
           ObjectLit [(''created'', Val (Str created)),
                      (''totalCategories'', count (categories s)),
                      (''totalProducts'', count (products s)),
                      (''totalModifiers'', count (modifiers s))])]"


section \<open>Import\<close>

text \<open>
  \<^verbatim>\<open>importJSON\<close> empties the three tables and refills them while it walks the parsed
  document inside a \<^verbatim>\<open>try\<close> block. A TypeError raised on the way (a \<^verbatim>\<open>null\<close> where an
  object is read) leaves the tables as they are at that moment: \<open>Thrown\<close> carries that
  store to the \<^verbatim>\<open>catch\<close>. The redrawing of the page and the write to \<^verbatim>\<open>localStorage\<close>
  that follow the walk are taken to succeed.
\<close>

datatype run = Completed store | Thrown store

fun forEach :: "('a \<Rightarrow> store \<Rightarrow> run) \<Rightarrow> 'a list \<Rightarrow> store \<Rightarrow> run" where
  "forEach f [] s = Completed s"
| "forEach f (x # xs) s =
     (case f x s of Completed s' \<Rightarrow> forEach f xs s' | Thrown s' \<Rightarrow> Thrown s')"

text \<open>\<^verbatim>\<open>modifier.options.map(option => ({...}))\<close>; \<open>None\<close> when an element is \<^verbatim>\<open>null\<close>.\<close>

fun importOptions :: "int \<Rightarrow> jsval list \<Rightarrow> menu_option list option" where
  "importOptions now [] = Some []"
| "importOptions now (opt # rest) =
     (if nullish opt then None
      else case importOptions now rest of
             None \<Rightarrow> None
           | Some os \<Rightarrow>
               Some (\<lparr>opt_id = or_else (getProp ''id'' opt) (fresh_id now),
                      opt_label = getProp ''label'' opt,
                      opt_value = or_else (getProp ''value'' opt) (Number (Fin 0))\<rparr> # os))"

definition importModifier :: "int \<Rightarrow> jsval \<Rightarrow> jsval \<Rightarrow> store \<Rightarrow> run" where
  "importModifier now product modifier s =
     (if nullish modifier then Thrown s
      else
        let modifierData =
              \<lparr>mod_id = or_else (getProp ''id'' modifier) (fresh_id now),
               mod_productId = getProp ''id'' product,
               mod_name = getProp ''name'' modifier,
               mod_min = or_else (getProp ''min'' modifier) (Number (Fin 0)),
               mod_max = or_else (getProp ''max'' modifier) (Number (Fin 1)),
               mod_type = or_else (getProp ''type'' modifier) (Number (Fin 1)),
               mod_position = or_else (getProp ''position'' modifier) (Number (Fin 1)),
               mod_options = []\<rparr>
        in if truthy (getProp ''options'' modifier) \<and> isArray (getProp ''options'' modifier)
           then (case importOptions now (elems (getProp ''options'' modifier)) of
                   None \<Rightarrow> Thrown s
                 | Some os \<Rightarrow>
                     Completed (s\<lparr>modifiers := modifiers s @ [modifierData\<lparr>mod_options := os\<rparr>]\<rparr>))
           else Completed (s\<lparr>modifiers := modifiers s @ [modifierData]\<rparr>))"

definition importProduct :: "int \<Rightarrow> jsval \<Rightarrow> jsval \<Rightarrow> store \<Rightarrow> run" where
  "importProduct now category product s =
     (if nullish product then Thrown s
      else
        let s1 = s\<lparr>products := products s @
                     [\<lparr>prod_id = or_else (getProp ''id'' product) (fresh_id now),
                       prod_categoryId = getProp ''id'' category,
                       prod_name = getProp ''name'' product,
                       prod_description = or_else (getProp ''description'' product) (Str []),
                       prod_price = or_else (getProp ''price'' product) (Number (Fin 0)),
                       prod_image = or_else (getProp ''image'' product) (Str [])\<rparr>]\<rparr>
        in if truthy (getProp ''modifiers'' product) \<and> isArray (getProp ''modifiers'' product)
           then forEach (importModifier now product) (elems (getProp ''modifiers'' product)) s1
           else Completed s1)"

definition importCategory :: "int \<Rightarrow> jsval \<Rightarrow> store \<Rightarrow> run" where
  "importCategory now category s =
     (if nullish category then Thrown s
      else
        let s1 = s\<lparr>categories := categories s @
                     [\<lparr>cat_id = or_else (getProp ''id'' category) (fresh_id now),
                       cat_name = getProp ''name'' category\<rparr>]\<rparr>
        in if truthy (getProp ''products'' category) \<and> isArray (getProp ''products'' category)
           then forEach (importProduct now category) (elems (getProp ''products'' category)) s1
           else Completed s1)"

text \<open>
  \<open>parse\<close> stands for \<^verbatim>\<open>JSON.parse\<close>: \<open>None\<close> is its SyntaxError. That error and the
  TypeError of reading \<^verbatim>\<open>menu\<close> from \<^verbatim>\<open>null\<close> arrive in the \<^verbatim>\<open>catch\<close> before any table
  is touched.
\<close>

definition importJSON :: "(string \<Rightarrow> jsval option) \<Rightarrow> int \<Rightarrow> string \<Rightarrow> store \<Rightarrow> outcome \<times> store" where
  "importJSON parse now text s =
     (let jsonString = trim text in
      if jsonString = [] then (Error NoImportText, s)
      else case parse jsonString of
             None \<Rightarrow> (Error ImportFailed, s)
           | Some jsonData \<Rightarrow>
               if nullish jsonData then (Error ImportFailed, s)
               else if \<not> truthy (getProp ''menu'' jsonData) \<or> \<not> isArray (getProp ''menu'' jsonData)
               then (Error InvalidFormat, s)
               else (case forEach (importCategory now) (elems (getProp ''menu'' jsonData))
                            (s\<lparr>categories := [], products := [], modifiers := []\<rparr>) of
                       Completed s' \<Rightarrow> (Success, s')
                     | Thrown s' \<Rightarrow> (Error ImportFailed, s')))"


section \<open>The exported text\<close>

text \<open>
  What a JSON text says: numbers, strings, booleans, \<^verbatim>\<open>null\<close>, arrays and objects,
  without identities.
\<close>

datatype json =
    JNull
  | JBool bool
  | JNum rat
  | JStr string
  | JArr "json list"
  | JObj "(string \<times> json) list"

text \<open>
  \<^verbatim>\<open>JSON.stringify\<close>: \<open>json_of\<close> is what it writes for a value of a table, \<open>stringify\<close>
  what it writes for the export document. \<^verbatim>\<open>NaN\<close> and the infinities are written as
  \<^verbatim>\<open>null\<close>, so is \<^verbatim>\<open>undefined\<close> in an array, and a property whose value is \<^verbatim>\<open>undefined\<close>
  is left out.
\<close>

fun json_of :: "jsval \<Rightarrow> json" where
  "json_of Undefined = JNull"
| "json_of Null = JNull"
| "json_of (Boolean b) = JBool b"
| "json_of (Number (Fin r)) = JNum r"
| "json_of (Number NaN) = JNull"
| "json_of (Number (Infinity p)) = JNull"
| "json_of (Str s) = JStr s"
| "json_of (Arr r xs) = JArr (map json_of xs)"
| "json_of (Obj r kvs) =
     JObj (map (\<lambda>(k, v). (k, json_of v)) (filter (\<lambda>(k, v). v \<noteq> Undefined) kvs))"

fun stringify :: "export \<Rightarrow> json" where
  "stringify (Val v) = json_of v"
| "stringify (ArrayLit ts) = JArr (map stringify ts)"
| "stringify (ObjectLit kts) =
     JObj (map (\<lambda>(k, t). (k, stringify t)) (filter (\<lambda>(k, t). t \<noteq> Val Undefined) kts))"

text \<open>
  \<^verbatim>\<open>JSON.parse\<close>: \<open>reads_as j v\<close> says that \<open>v\<close> is a value that \<^verbatim>\<open>JSON.parse\<close> can return
  for a text that says \<open>j\<close>. The values are those of the text, in the order of the
  text; the identities of the arrays and objects are whatever the parser gave them.
\<close>

fun reads_as :: "json \<Rightarrow> jsval \<Rightarrow> bool"
  and reads_all :: "json list \<Rightarrow> jsval list \<Rightarrow> bool"
  and reads_props :: "(string \<times> json) list \<Rightarrow> (string \<times> jsval) list \<Rightarrow> bool" where
  "reads_as JNull v = (v = Null)"
| "reads_as (JBool b) v = (v = Boolean b)"
| "reads_as (JNum r) v = (v = Number (Fin r))"
| "reads_as (JStr s) v = (v = Str s)"
| "reads_as (JArr js) v = (case v of Arr r vs \<Rightarrow> reads_all js vs | _ \<Rightarrow> False)"
| "reads_as (JObj jkvs) v = (case v of Obj r kvs \<Rightarrow> reads_props jkvs kvs | _ \<Rightarrow> False)"
| "reads_all [] vs = (vs = [])"
| "reads_all (j # js) vs = (case vs of [] \<Rightarrow> False | v # vs' \<Rightarrow> reads_as j v \<and> reads_all js vs')"
| "reads_props [] kvs = (kvs = [])"
| "reads_props ((k, j) # jkvs) kvs =
     (case kvs of [] \<Rightarrow> False
      | (k', v) # kvs' \<Rightarrow> k' = k \<and> reads_as j v \<and> reads_props jkvs kvs')"


section \<open>Properties of the tables\<close>

text \<open>
  Referential integrity as the code itself matches records (\<^verbatim>\<open>===\<close> on the ids): every
  product's \<^verbatim>\<open>categoryId\<close> is the id of a category of the table, every modifier's
  \<^verbatim>\<open>productId\<close> the id of a product of the table.
\<close>

definition products_linked :: "store \<Rightarrow> bool" where
  "products_linked s =
     list_all (\<lambda>prod. list_ex (\<lambda>cat. strict_eq (cat_id cat) (prod_categoryId prod)) (categories s))
       (products s)"

definition modifiers_linked :: "store \<Rightarrow> bool" where
  "modifiers_linked s =
     list_all (\<lambda>modifier. list_ex (\<lambda>prod. strict_eq (prod_id prod) (mod_productId modifier)) (products s))
       (modifiers s)"

definition referential_integrity :: "store \<Rightarrow> bool" where
  "referential_integrity s = (products_linked s \<and> modifiers_linked s)"

text \<open>
  An id that a reference can match: truthy, so that \<^verbatim>\<open>id || Date.now()\<close> keeps it, and
  strictly equal to itself. \<open>ids_given\<close> says that every category entry and every product
  entry of an import document has such an id.
\<close>

definition usable_id :: "jsval \<Rightarrow> bool" where
  "usable_id v = (truthy v \<and> strict_eq v v)"

definition ids_given :: "jsval \<Rightarrow> bool" where
  "ids_given jsonData =
     list_all (\<lambda>category.
         usable_id (getProp ''id'' category) \<and>
         list_all (\<lambda>product. usable_id (getProp ''id'' product))
           (elems (getProp ''products'' category)))
       (elems (getProp ''menu'' jsonData))"

text \<open>
  The store a walk ends with, completed or not, and the invariants of the walks of
  \<^verbatim>\<open>importJSON\<close>: integrity together with the presence of the category (and of the
  product) whose entries are being read.
\<close>

fun reached :: "run \<Rightarrow> store" where
  "reached (Completed s) = s"
| "reached (Thrown s) = s"

definition linked_cat :: "jsval \<Rightarrow> store \<Rightarrow> bool" where
  "linked_cat cid t =
     (referential_integrity t \<and> list_ex (\<lambda>cat. strict_eq (cat_id cat) cid) (categories t))"

definition linked_with :: "jsval \<Rightarrow> jsval \<Rightarrow> store \<Rightarrow> bool" where
  "linked_with cid pid t =
     (linked_cat cid t \<and> list_ex (\<lambda>prod. strict_eq (prod_id prod) pid) (products t))"

text \<open>Finite numbers, finite numbers other than zero, and strings.\<close>

fun finite_number :: "jsval \<Rightarrow> bool" where
  "finite_number (Number (Fin r)) = True"
| "finite_number _ = False"

fun nonzero_number :: "jsval \<Rightarrow> bool" where
  "nonzero_number (Number (Fin r)) = (r \<noteq> 0)"
| "nonzero_number _ = False"

fun is_string :: "jsval \<Rightarrow> bool" where
  "is_string (Str s) = True"
| "is_string _ = False"

text \<open>
  The records of a table typed as in the data model, with ids, \<^verbatim>\<open>max\<close>, \<^verbatim>\<open>type\<close> and
  \<^verbatim>\<open>position\<close> other than zero.
\<close>

definition category_typed :: "category \<Rightarrow> bool" where
  "category_typed c = (nonzero_number (cat_id c) \<and> is_string (cat_name c))"

definition product_typed :: "product \<Rightarrow> bool" where
  "product_typed p =
     (nonzero_number (prod_id p) \<and> is_string (prod_name p) \<and> is_string (prod_description p)
      \<and> finite_number (prod_price p) \<and> is_string (prod_image p))"

definition option_typed :: "menu_option \<Rightarrow> bool" where
  "option_typed opt =
     (nonzero_number (opt_id opt) \<and> is_string (opt_label opt) \<and> finite_number (opt_value opt))"

definition modifier_typed :: "modifier \<Rightarrow> bool" where
  "modifier_typed m =
     (nonzero_number (mod_id m) \<and> is_string (mod_name m) \<and> finite_number (mod_min m)
      \<and> nonzero_number (mod_max m) \<and> nonzero_number (mod_type m)
      \<and> nonzero_number (mod_position m) \<and> list_all option_typed (mod_options m))"

definition well_typed :: "store \<Rightarrow> bool" where
  "well_typed s =
     (list_all category_typed (categories s) \<and> list_all product_typed (products s)
      \<and> list_all modifier_typed (modifiers s))"

text \<open>
  The products table lists the products category by category, in the order of the
  categories table, and the modifiers table the modifiers product by product, in the
  order of the products table.
\<close>

definition grouped :: "store \<Rightarrow> bool" where
  "grouped s =
     (products s = concat (map (categoryProducts s) (categories s))
      \<and> modifiers s = concat (map (productModifiers s) (products s)))"

text \<open>Every category has at least one product.\<close>

definition no_empty_category :: "store \<Rightarrow> bool" where
  "no_empty_category s = list_all (\<lambda>category. categoryProducts s category \<noteq> []) (categories s)"

text \<open>The products and the modifiers that an export document nests in its menu.\<close>

definition menuProducts :: "export \<Rightarrow> export list" where
  "menuProducts doc =
     concat (map (\<lambda>entry. items (getField ''products'' entry)) (items (getField ''menu'' doc)))"

definition menuModifiers :: "export \<Rightarrow> export list" where
  "menuModifiers doc =
     concat (map (\<lambda>entry. items (getField ''modifiers'' entry)) (menuProducts doc))"


section \<open>Example states and documents\<close>

definition drinks :: category where
  "drinks = \<lparr>cat_id = Number (Fin 1), cat_name = Str ''Drinks''\<rparr>"

definition food :: category where
  "food = \<lparr>cat_id = Number (Fin 2), cat_name = Str ''Food''\<rparr>"

definition cola :: product where
  "cola = \<lparr>prod_id = Number (Fin 10), prod_categoryId = Number (Fin 1), prod_name = Str ''Cola'',
           prod_description = Str ''Cold soda'', prod_price = Number (Fin 2.5), prod_image = Str []\<rparr>"

definition taco :: product where
  "taco = \<lparr>prod_id = Number (Fin 20), prod_categoryId = Number (Fin 2), prod_name = Str ''Taco'',
           prod_description = Str ''Corn'', prod_price = Number (Fin 3), prod_image = Str []\<rparr>"

definition size_of_cola :: modifier where
  "size_of_cola =
     \<lparr>mod_id = Number (Fin 100), mod_productId = Number (Fin 10), mod_name = Str ''Size'',
      mod_min = Number (Fin 0), mod_max = Number (Fin 1), mod_type = Number (Fin 1),
      mod_position = Number (Fin 1),
      mod_options = [\<lparr>opt_id = Number (Fin 1000), opt_label = Str ''Large'', opt_value = Number (Fin 1)\<rparr>]\<rparr>"

definition spice_of_taco :: modifier where
  "spice_of_taco =
     \<lparr>mod_id = Number (Fin 200), mod_productId = Number (Fin 20), mod_name = Str ''Spice'',
      mod_min = Number (Fin 0), mod_max = Number (Fin 1), mod_type = Number (Fin 1),
      mod_position = Number (Fin 1),
      mod_options = [\<lparr>opt_id = Number (Fin 2000), opt_label = Str ''Mild'', opt_value = Number (Fin 0)\<rparr>]\<rparr>"

text \<open>Two categories with one product each, one modifier on each product.\<close>

definition small_menu :: store where
  "small_menu = \<lparr>categories = [drinks, food], products = [cola, taco],
                  modifiers = [size_of_cola, spice_of_taco], currentOptions = []\<rparr>"

text \<open>The same menu while an option waits in the draft buffer.\<close>

definition drafting :: store where
  "drafting =
     small_menu\<lparr>currentOptions :=
       [\<lparr>opt_id = Number (Fin 3000), opt_label = Str ''Hot'', opt_value = Number (Fin 0)\<rparr>]\<rparr>"

text \<open>A category without products, and products whose category is not in the table.\<close>

definition childless :: store where
  "childless = \<lparr>categories = [drinks, food], products = [cola], modifiers = [size_of_cola],
                 currentOptions = []\<rparr>"

definition orphaned :: store where
  "orphaned = \<lparr>categories = [food], products = [cola, taco],
                modifiers = [size_of_cola, spice_of_taco], currentOptions = []\<rparr>"

text \<open>
  A stand-in for \<^verbatim>\<open>JSON.parse\<close> that knows one text and the document it returns for
  it. The documents below number their arrays and objects in the order of the text.
\<close>

definition parse_as :: "string \<Rightarrow> jsval \<Rightarrow> string \<Rightarrow> jsval option" where
  "parse_as text doc t = (if t = text then Some doc else None)"

definition null_entry_text :: string where
  \<open>null_entry_text = ''{"menu":[null]}''\<close>

definition null_entry :: jsval where
  "null_entry = Obj 0 [(''menu'', Arr 1 [Null])]"

definition no_category_id_text :: string where
  \<open>no_category_id_text = ''{"menu":[{"name":"Food","products":[{"id":2,"name":"Taco"}]}]}''\<close>

definition no_category_id :: jsval where
  "no_category_id =
     Obj 0 [(''menu'',
             Arr 1 [Obj 2 [(''name'', Str ''Food''),
                           (''products'',
                              Arr 3 [Obj 4 [(''id'', Number (Fin 2)), (''name'', Str ''Taco'')]])]])]"


text \<open>The import document of the specification's scenario: every entry has its id.\<close>

definition with_ids_text :: string where
  \<open>with_ids_text = ''{"menu":[{"id":1,"name":"Food","products":[{"id":2,"name":"Taco","price":3,"modifiers":[{"id":3,"name":"Spice","options":[{"id":4,"label":"Mild","value":0}]}]}]}]}''\<close>

definition with_ids :: jsval where
  "with_ids =
     Obj 0 [(''menu'',
       Arr 1 [Obj 2 [(''id'', Number (Fin 1)), (''name'', Str ''Food''),
         (''products'',
            Arr 3 [Obj 4 [(''id'', Number (Fin 2)), (''name'', Str ''Taco''),
              (''price'', Number (Fin 3)),
              (''modifiers'',
                 Arr 5 [Obj 6 [(''id'', Number (Fin 3)), (''name'', Str ''Spice''),
                   (''options'',
                      Arr 7 [Obj 8 [(''id'', Number (Fin 4)), (''label'', Str ''Mild''),
                                    (''value'', Number (Fin 0))]])]])]])]])]"

text \<open>
  The two products of the small menu in the other order, and the texts that
  \<^verbatim>\<open>JSON.stringify\<close> gives for the exports of the two states.
\<close>

definition unordered :: store where
  "unordered = \<lparr>categories = [drinks, food], products = [taco, cola], modifiers = [],
                 currentOptions = []\<rparr>"

definition created_at :: string where
  "created_at = ''2024-01-01T00:00:00.000Z''"

definition unordered_text :: string where
  \<open>unordered_text = ''{"menu":[{"id":1,"name":"Drinks","products":[{"id":10,"name":"Cola","description":"Cold soda","price":2.5,"image":null,"modifiers":[]}]},{"id":2,"name":"Food","products":[{"id":20,"name":"Taco","description":"Corn","price":3,"image":null,"modifiers":[]}]}],"metadata":{"created":"2024-01-01T00:00:00.000Z","totalCategories":2,"totalProducts":2,"totalModifiers":0}}''\<close>

definition small_menu_text :: string where
  \<open>small_menu_text = ''{"menu":[{"id":1,"name":"Drinks","products":[{"id":10,"name":"Cola","description":"Cold soda","price":2.5,"image":null,"modifiers":[{"id":100,"name":"Size","min":0,"max":1,"type":1,"position":1,"options":[{"id":1000,"label":"Large","value":1}]}]}]},{"id":2,"name":"Food","products":[{"id":20,"name":"Taco","description":"Corn","price":3,"image":null,"modifiers":[{"id":200,"name":"Spice","min":0,"max":1,"type":1,"position":1,"options":[{"id":2000,"label":"Mild","value":0}]}]}]}],"metadata":{"created":"2024-01-01T00:00:00.000Z","totalCategories":2,"totalProducts":2,"totalModifiers":2}}''\<close>

text \<open>A category whose id is an array: its product receives the same array.\<close>

definition array_id_text :: string where
  \<open>array_id_text = ''{"menu":[{"id":[1],"name":"Food","products":[{"id":2,"name":"Taco"}]}]}''\<close>

definition array_id :: jsval where
  "array_id =
     Obj 0 [(''menu'',
             Arr 1 [Obj 2 [(''id'', Arr 3 [Number (Fin 1)]), (''name'', Str ''Food''),
                           (''products'',
                              Arr 4 [Obj 5 [(''id'', Number (Fin 2)), (''name'', Str ''Taco'')]])]])]"

text \<open>What \<^verbatim>\<open>JSON.parse\<close> returns for the two texts.\<close>

definition unordered_doc :: jsval where
  "unordered_doc =
     Obj 0 [(''menu'',
       Arr 1 [Obj 2 [(''id'', Number (Fin 1)), (''name'', Str ''Drinks''),
                (''products'',
                   Arr 3 [Obj 4 [(''id'', Number (Fin 10)), (''name'', Str ''Cola''),
                            (''description'', Str ''Cold soda''), (''price'', Number (Fin 2.5)),
                            (''image'', Null), (''modifiers'', Arr 5 [])]])],
              Obj 6 [(''id'', Number (Fin 2)), (''name'', Str ''Food''),
                (''products'',
                   Arr 7 [Obj 8 [(''id'', Number (Fin 20)), (''name'', Str ''Taco''),
                            (''description'', Str ''Corn''), (''price'', Number (Fin 3)),
                            (''image'', Null), (''modifiers'', Arr 9 [])]])]]),
       (''metadata'',
          Obj 10 [(''created'', Str ''2024-01-01T00:00:00.000Z''),
                  (''totalCategories'', Number (Fin 2)), (''totalProducts'', Number (Fin 2)),
                  (''totalModifiers'', Number (Fin 0))])]"

definition small_menu_doc :: jsval where
  "small_menu_doc =
     Obj 0 [(''menu'',
       Arr 1 [Obj 2 [(''id'', Number (Fin 1)), (''name'', Str ''Drinks''),
                (''products'',
                   Arr 3 [Obj 4 [(''id'', Number (Fin 10)), (''name'', Str ''Cola''),
                     (''description'', Str ''Cold soda''), (''price'', Number (Fin 2.5)),
                     (''image'', Null),
                     (''modifiers'',
                        Arr 5 [Obj 6 [(''id'', Number (Fin 100)), (''name'', Str ''Size''),
                          (''min'', Number (Fin 0)), (''max'', Number (Fin 1)),
                          (''type'', Number (Fin 1)), (''position'', Number (Fin 1)),
                          (''options'',
                             Arr 7 [Obj 8 [(''id'', Number (Fin 1000)), (''label'', Str ''Large''),
                                           (''value'', Number (Fin 1))]])]])]])],
              Obj 9 [(''id'', Number (Fin 2)), (''name'', Str ''Food''),
                (''products'',
                   Arr 10 [Obj 11 [(''id'', Number (Fin 20)), (''name'', Str ''Taco''),
                     (''description'', Str ''Corn''), (''price'', Number (Fin 3)),
                     (''image'', Null),
                     (''modifiers'',
                        Arr 12 [Obj 13 [(''id'', Number (Fin 200)), (''name'', Str ''Spice''),
                          (''min'', Number (Fin 0)), (''max'', Number (Fin 1)),
                          (''type'', Number (Fin 1)), (''position'', Number (Fin 1)),
                          (''options'',
                             Arr 14 [Obj 15 [(''id'', Number (Fin 2000)), (''label'', Str ''Mild''),
                                             (''value'', Number (Fin 0))]])]])]])]]),
       (''metadata'',
          Obj 16 [(''created'', Str ''2024-01-01T00:00:00.000Z''),
                  (''totalCategories'', Number (Fin 2)), (''totalProducts'', Number (Fin 2)),
                  (''totalModifiers'', Number (Fin 2))])]"


section \<open>What the operations do\<close>

lemmas example_defs =
  small_menu_def drinks_def food_def cola_def taco_def size_of_cola_def spice_of_taco_def

subsection \<open>Deleting a category\<close>

text \<open>
  C1 says that \<^verbatim>\<open>deleteCategory(id)\<close> removes the category, its products and the
  modifiers of those products, and nothing else. The modifier filter of the source
  runs over the products that are left, so it removes the modifiers of the products
  that stay and keeps those of the products that went: deleting Drinks from the small
  menu removes Cola, keeps Cola's modifier Size and removes Taco's modifier Spice.
\<close>

theorem deleteCategory_drops_the_wrong_modifiers:
  "deleteCategory (Number (Fin 1)) small_menu =
     (Success, \<lparr>categories = [food], products = [taco], modifiers = [size_of_cola],
                currentOptions = []\<rparr>)"
  by (simp add: deleteCategory_def example_defs)

subsection \<open>Adding a product\<close>

text \<open>
  C5 says that \<^verbatim>\<open>addProduct\<close> refuses a name that another product of the same
  category already has, letter case aside. \<^verbatim>\<open>addProduct\<close> has no such test: with Cola
  in category 1, a second product named cola is appended to the same category.
\<close>

theorem addProduct_accepts_duplicate_name:
  "addProduct 30 (Fin 1) ''cola'' ''Diet'' (Fin 2) [] small_menu =
     (Success,
      small_menu\<lparr>products := [cola, taco,
         \<lparr>prod_id = Number (Fin 30), prod_categoryId = Number (Fin 1), prod_name = Str ''cola'',
          prod_description = Str ''Diet'', prod_price = Number (Fin 2), prod_image = Str []\<rparr>]\<rparr>)
   \<and> prod_categoryId cola = Number (Fin 1)
   \<and> (\<exists>n. prod_name cola = Str n \<and> toLowerCase n = toLowerCase ''cola'')"
  by (simp add: addProduct_def example_defs trim_def whitespace_def isNaN_def num_lt_def
        fresh_id_def toLowerCase_def lower_char_def)

subsection \<open>Saving a modifier\<close>

text \<open>
  C7: with an empty draft option buffer \<^verbatim>\<open>saveModifier\<close> shows an error toast whatever
  the form holds, and the store (the modifiers table with it) is as it was.
\<close>

theorem saveModifier_empty_buffer:
  "currentOptions s = [] \<Longrightarrow>
   \<exists>r. saveModifier now productId nameInput minN maxN type position s = (Error r, s)"
  by (simp add: saveModifier_def Let_def)

theorem saveModifier_empty_buffer_witness:
  "currentOptions small_menu = [] \<and>
   (\<exists>r. saveModifier 5 (Fin 10) ''Size'' (Fin 0) (Fin 1) (Fin 1) (Fin 1) small_menu
          = (Error r, small_menu))"
  using saveModifier_empty_buffer [of small_menu 5 "Fin 10" "''Size''" "Fin 0" "Fin 1" "Fin 1" "Fin 1"]
  by (simp add: small_menu_def)

text \<open>
  C8: when the minimum and the maximum are integers and the minimum is the larger one,
  \<^verbatim>\<open>saveModifier\<close> shows an error toast and the store is as it was, whatever the type,
  the position and the other fields are.
\<close>

theorem saveModifier_min_above_max:
  "b < a \<Longrightarrow>
   \<exists>r. saveModifier now productId nameInput (Fin (of_int a)) (Fin (of_int b)) type position s
         = (Error r, s)"
  by (simp add: saveModifier_def Let_def)

theorem saveModifier_min_above_max_witness:
  "(1::int) < 2 \<and> currentOptions drafting \<noteq> [] \<and>
   (\<exists>r. saveModifier 5 (Fin 10) ''Size'' (Fin (of_int 2)) (Fin (of_int 1)) (Fin 2) (Fin 0) drafting
          = (Error r, drafting))"
  using saveModifier_min_above_max [of 1 2 5 "Fin 10" "''Size''" "Fin 2" "Fin 0" drafting]
  by (simp add: drafting_def)

subsection \<open>Importing\<close>

text \<open>
  The error toasts of the forms, and those of the import that come before the walk
  of the document, leave the store as it was.
\<close>

lemma rejections_before_any_change:
  "fst (addCategory now nameInput s) \<noteq> Success \<longrightarrow> snd (addCategory now nameInput s) = s"
  "fst (addProduct now categoryId nameInput descriptionInput price imageInput s) \<noteq> Success \<longrightarrow>
     snd (addProduct now categoryId nameInput descriptionInput price imageInput s) = s"
  "fst (saveModifier now productId nameInput minN maxN type position s) \<noteq> Success \<longrightarrow>
     snd (saveModifier now productId nameInput minN maxN type position s) = s"
  "fst (importJSON parse now jsonText s) \<in> {Error NoImportText, Error InvalidFormat} \<longrightarrow>
     snd (importJSON parse now jsonText s) = s"
  "parse (trim jsonText) = None \<longrightarrow> snd (importJSON parse now jsonText s) = s"
  by (auto simp: addCategory_def addProduct_def saveModifier_def importJSON_def Let_def
        split: option.splits bool.splits run.splits)

text \<open>
  C4 says that an operation that reports an error leaves the three tables as they
  were. \<^verbatim>\<open>importJSON\<close> empties the tables before it walks the document; a \<^verbatim>\<open>null\<close> entry
  in the menu array raises a TypeError during the walk, the \<^verbatim>\<open>catch\<close> shows the error
  toast, and the tables of the small menu are gone.
\<close>

theorem importJSON_null_entry_wipes_tables:
  "importJSON (parse_as null_entry_text null_entry) 77 null_entry_text small_menu =
     (Error ImportFailed, \<lparr>categories = [], products = [], modifiers = [], currentOptions = []\<rparr>)"
  by (simp add: importJSON_def parse_as_def null_entry_text_def null_entry_def trim_def
        whitespace_def importCategory_def small_menu_def)

theorem importJSON_null_entry_wipes_tables_witness:
  "fst (importJSON (parse_as null_entry_text null_entry) 77 null_entry_text small_menu)
     = Error ImportFailed
   \<and> categories (snd (importJSON (parse_as null_entry_text null_entry) 77 null_entry_text small_menu))
     \<noteq> categories small_menu"
  using importJSON_null_entry_wipes_tables by (simp add: small_menu_def)

text \<open>
  C6 says that every imported product carries the id of its category as the
  categories table stores it. For a category entry without an id the category record
  gets \<^verbatim>\<open>Date.now()\<close> (here 77), while its products get the entry's own \<^verbatim>\<open>id\<close>, which is
  \<^verbatim>\<open>undefined\<close>.
\<close>

theorem importJSON_orphans_products_of_category_without_id:
  "importJSON (parse_as no_category_id_text no_category_id) 77 no_category_id_text small_menu =
     (Success,
      \<lparr>categories = [\<lparr>cat_id = Number (Fin 77), cat_name = Str ''Food''\<rparr>],
       products = [\<lparr>prod_id = Number (Fin 2), prod_categoryId = Undefined, prod_name = Str ''Taco'',
                    prod_description = Str [], prod_price = Number (Fin 0), prod_image = Str []\<rparr>],
       modifiers = [], currentOptions = []\<rparr>)"
  by (simp add: importJSON_def parse_as_def no_category_id_text_def no_category_id_def trim_def
        whitespace_def importCategory_def importProduct_def small_menu_def or_else_def fresh_id_def)

theorem importJSON_orphans_products_of_category_without_id_witness:
  "map cat_id (categories (snd (importJSON (parse_as no_category_id_text no_category_id) 77
                                  no_category_id_text small_menu))) = [Number (Fin 77)]
   \<and> map prod_categoryId (products (snd (importJSON (parse_as no_category_id_text no_category_id) 77
                                            no_category_id_text small_menu))) = [Undefined]"
  using importJSON_orphans_products_of_category_without_id by simp

text \<open>
  A category id that is an array is the same array in the category record and in its
  product, so the export finds the product of the imported category.
\<close>

lemma imported_array_id_matches:
  "snd (importJSON (parse_as array_id_text array_id) 77 array_id_text small_menu) =
     \<lparr>categories = [\<lparr>cat_id = Arr 3 [Number (Fin 1)], cat_name = Str ''Food''\<rparr>],
      products = [\<lparr>prod_id = Number (Fin 2), prod_categoryId = Arr 3 [Number (Fin 1)],
                   prod_name = Str ''Taco'', prod_description = Str [],
                   prod_price = Number (Fin 0), prod_image = Str []\<rparr>],
      modifiers = [], currentOptions = []\<rparr>"
  "length (items (getField ''menu'' (generateJSON created
       (snd (importJSON (parse_as array_id_text array_id) 77 array_id_text small_menu))))) = 1"
  by (simp_all add: importJSON_def parse_as_def array_id_text_def array_id_def trim_def
        whitespace_def importCategory_def importProduct_def small_menu_def or_else_def
        generateJSON_def exportCategory_def categoryProducts_def)

subsection \<open>Exporting\<close>

lemma filter_truthy_exportCategory:
  "filter truthy_node (map (exportCategory s) cs) =
     map (exportCategory s) (filter (\<lambda>category. categoryProducts s category \<noteq> []) cs)"
  by (induction cs) (simp_all add: exportCategory_def)

lemma categoryProducts_empty:
  "(categoryProducts s category \<noteq> []) =
     list_ex (\<lambda>product. strict_eq (prod_categoryId product) (cat_id category)) (products s)"
  by (auto simp: categoryProducts_def filter_empty_conv list_ex_iff)

text \<open>
  C9: the menu array of \<^verbatim>\<open>generateJSON\<close> has one entry for each category that has a
  product (a product whose \<^verbatim>\<open>categoryId\<close> is the category's id), in the order of the
  categories table, and none for a category without products. An entry holds the
  category's id and name and nests the products of the category, in table order; a
  product nests the modifiers whose \<^verbatim>\<open>productId\<close> is its id, a modifier its options.
  No entry of the menu has an empty products array. Of \<open>childless\<close> the menu has Drinks
  with Cola and its modifier, and nothing of Food; of \<open>orphaned\<close> it has Food with Taco
  and its modifier, and nothing of Cola, whose category is not in the table.
\<close>

theorem generateJSON_menu:
  "getField ''menu'' (generateJSON created s) =
     ArrayLit (map (\<lambda>category.
         ObjectLit
           [(''id'', Val (cat_id category)), (''name'', Val (cat_name category)),
            (''products'',
               ArrayLit (map (\<lambda>product.
                   ObjectLit
                     [(''id'', Val (prod_id product)), (''name'', Val (prod_name product)),
                      (''description'', Val (prod_description product)),
                      (''price'', Val (prod_price product)),
                      (''image'',
                         Val (if truthy (prod_image product) then prod_image product else Null)),
                      (''modifiers'',
                         ArrayLit (map (\<lambda>modifier.
                             ObjectLit
                               [(''id'', Val (mod_id modifier)), (''name'', Val (mod_name modifier)),
                                (''min'', Val (mod_min modifier)), (''max'', Val (mod_max modifier)),
                                (''type'', Val (mod_type modifier)),
                                (''position'', Val (mod_position modifier)),
                                (''options'',
                                   ArrayLit (map (\<lambda>opt.
                                       ObjectLit
                                         [(''id'', Val (opt_id opt)),
                                          (''label'', Val (opt_label opt)),
                                          (''value'', Val (opt_value opt))])
                                     (mod_options modifier)))])
                           (filter (\<lambda>modifier. strict_eq (mod_productId modifier) (prod_id product))
                              (modifiers s))))])
                 (filter (\<lambda>product. strict_eq (prod_categoryId product) (cat_id category))
                    (products s))))])
       (filter (\<lambda>category.
            list_ex (\<lambda>product. strict_eq (prod_categoryId product) (cat_id category)) (products s))
          (categories s)))
   \<and> list_all (\<lambda>entry. items (getField ''products'' entry) \<noteq> [])
         (items (getField ''menu'' (generateJSON created s)))
   \<and> getField ''menu'' (generateJSON created childless) =
       ArrayLit
         [ObjectLit
            [(''id'', Val (Number (Fin 1))), (''name'', Val (Str ''Drinks'')),
             (''products'',
                ArrayLit
                  [ObjectLit
                     [(''id'', Val (Number (Fin 10))), (''name'', Val (Str ''Cola'')),
                      (''description'', Val (Str ''Cold soda'')),
                      (''price'', Val (Number (Fin 2.5))), (''image'', Val Null),
                      (''modifiers'',
                         ArrayLit
                           [ObjectLit
                              [(''id'', Val (Number (Fin 100))), (''name'', Val (Str ''Size'')),
                               (''min'', Val (Number (Fin 0))), (''max'', Val (Number (Fin 1))),
                               (''type'', Val (Number (Fin 1))),
                               (''position'', Val (Number (Fin 1))),
                               (''options'',
                                  ArrayLit
                                    [ObjectLit
                                       [(''id'', Val (Number (Fin 1000))),
                                        (''label'', Val (Str ''Large'')),
                                        (''value'', Val (Number (Fin 1)))]])]])]])]]
   \<and> getField ''menu'' (generateJSON created orphaned) =
       ArrayLit
         [ObjectLit
            [(''id'', Val (Number (Fin 2))), (''name'', Val (Str ''Food'')),
             (''products'',
                ArrayLit
                  [ObjectLit
                     [(''id'', Val (Number (Fin 20))), (''name'', Val (Str ''Taco'')),
                      (''description'', Val (Str ''Corn'')),
                      (''price'', Val (Number (Fin 3))), (''image'', Val Null),
                      (''modifiers'',
                         ArrayLit
                           [ObjectLit
                              [(''id'', Val (Number (Fin 200))), (''name'', Val (Str ''Spice'')),
                               (''min'', Val (Number (Fin 0))), (''max'', Val (Number (Fin 1))),
                               (''type'', Val (Number (Fin 1))),
                               (''position'', Val (Number (Fin 1))),
                               (''options'',
                                  ArrayLit
                                    [ObjectLit
                                       [(''id'', Val (Number (Fin 2000))),
                                        (''label'', Val (Str ''Mild'')),
                                        (''value'', Val (Number (Fin 0)))]])]])]])]]"
proof -
  let ?entry = "\<lambda>category.
         ObjectLit
           [(''id'', Val (cat_id category)), (''name'', Val (cat_name category)),
            (''products'',
               ArrayLit (map (\<lambda>product.
                   ObjectLit
                     [(''id'', Val (prod_id product)), (''name'', Val (prod_name product)),
                      (''description'', Val (prod_description product)),
                      (''price'', Val (prod_price product)),
                      (''image'',
                         Val (if truthy (prod_image product) then prod_image product else Null)),
                      (''modifiers'',
                         ArrayLit (map (\<lambda>modifier.
                             ObjectLit
                               [(''id'', Val (mod_id modifier)), (''name'', Val (mod_name modifier)),
                                (''min'', Val (mod_min modifier)), (''max'', Val (mod_max modifier)),
                                (''type'', Val (mod_type modifier)),
                                (''position'', Val (mod_position modifier)),
                                (''options'',
                                   ArrayLit (map (\<lambda>opt.
                                       ObjectLit
                                         [(''id'', Val (opt_id opt)),
                                          (''label'', Val (opt_label opt)),
                                          (''value'', Val (opt_value opt))])
                                     (mod_options modifier)))])
                           (filter (\<lambda>modifier. strict_eq (mod_productId modifier) (prod_id product))
                              (modifiers s))))])
                 (filter (\<lambda>product. strict_eq (prod_categoryId product) (cat_id category))
                    (products s))))]"
  have entry: "exportCategory s category = ?entry category"
    if "categoryProducts s category \<noteq> []" for category
    using that
    by (simp add: exportCategory_def)
       (simp add: categoryProducts_def productModifiers_def exportProduct_def exportModifier_def
          exportOption_def or_else_def comp_def)
  have "map (exportCategory s)
          (filter (\<lambda>category. categoryProducts s category \<noteq> []) (categories s))
        = map ?entry (filter (\<lambda>category. categoryProducts s category \<noteq> []) (categories s))"
    by (rule map_cong) (simp_all add: entry)
  then have menu: "getField ''menu'' (generateJSON created s) =
       ArrayLit (map ?entry
         (filter (\<lambda>category.
              list_ex (\<lambda>product. strict_eq (prod_categoryId product) (cat_id category)) (products s))
            (categories s)))"
    by (simp add: generateJSON_def filter_truthy_exportCategory categoryProducts_empty)
  have filled: "list_all (\<lambda>entry. items (getField ''products'' entry) \<noteq> [])
         (items (getField ''menu'' (generateJSON created s)))"
    by (simp add: menu list_all_iff categoryProducts_empty [symmetric])
       (simp add: categoryProducts_def)
  have childless: "getField ''menu'' (generateJSON created childless) =
       ArrayLit
         [ObjectLit
            [(''id'', Val (Number (Fin 1))), (''name'', Val (Str ''Drinks'')),
             (''products'',
                ArrayLit
                  [ObjectLit
                     [(''id'', Val (Number (Fin 10))), (''name'', Val (Str ''Cola'')),
                      (''description'', Val (Str ''Cold soda'')),
                      (''price'', Val (Number (Fin 2.5))), (''image'', Val Null),
                      (''modifiers'',
                         ArrayLit
                           [ObjectLit
                              [(''id'', Val (Number (Fin 100))), (''name'', Val (Str ''Size'')),
                               (''min'', Val (Number (Fin 0))), (''max'', Val (Number (Fin 1))),
                               (''type'', Val (Number (Fin 1))),
                               (''position'', Val (Number (Fin 1))),
                               (''options'',
                                  ArrayLit
                                    [ObjectLit
                                       [(''id'', Val (Number (Fin 1000))),
                                        (''label'', Val (Str ''Large'')),
                                        (''value'', Val (Number (Fin 1)))]])]])]])]]"
    by (simp add: generateJSON_def exportCategory_def exportProduct_def exportModifier_def
          exportOption_def categoryProducts_def productModifiers_def or_else_def childless_def
          example_defs)
  have orphaned: "getField ''menu'' (generateJSON created orphaned) =
       ArrayLit
         [ObjectLit
            [(''id'', Val (Number (Fin 2))), (''name'', Val (Str ''Food'')),
             (''products'',
                ArrayLit
                  [ObjectLit
                     [(''id'', Val (Number (Fin 20))), (''name'', Val (Str ''Taco'')),
                      (''description'', Val (Str ''Corn'')),
                      (''price'', Val (Number (Fin 3))), (''image'', Val Null),
                      (''modifiers'',
                         ArrayLit
                           [ObjectLit
                              [(''id'', Val (Number (Fin 200))), (''name'', Val (Str ''Spice'')),
                               (''min'', Val (Number (Fin 0))), (''max'', Val (Number (Fin 1))),
                               (''type'', Val (Number (Fin 1))),
                               (''position'', Val (Number (Fin 1))),
                               (''options'',
                                  ArrayLit
                                    [ObjectLit
                                       [(''id'', Val (Number (Fin 2000))),
                                        (''label'', Val (Str ''Mild'')),
                                        (''value'', Val (Number (Fin 0)))]])]])]])]]"
    by (simp add: generateJSON_def exportCategory_def exportProduct_def exportModifier_def
          exportOption_def categoryProducts_def productModifiers_def or_else_def orphaned_def
          example_defs)
  from menu filled childless orphaned show ?thesis by (intro conjI)
qed

text \<open>
  C10: the metadata block counts the whole tables. The category count is larger than
  the menu array when a category has no product (\<open>childless\<close>), and the product and
  modifier counts are larger than what the menu nests when products belong to no
  category of the table (\<open>orphaned\<close>).
\<close>

theorem generateJSON_metadata:
  "getField ''totalCategories'' (getField ''metadata'' (generateJSON created s))
     = Val (Number (Fin (of_nat (length (categories s)))))
   \<and> getField ''totalProducts'' (getField ''metadata'' (generateJSON created s))
     = Val (Number (Fin (of_nat (length (products s)))))
   \<and> getField ''totalModifiers'' (getField ''metadata'' (generateJSON created s))
     = Val (Number (Fin (of_nat (length (modifiers s)))))
   \<and> (\<exists>s'. length (items (getField ''menu'' (generateJSON created s'))) < length (categories s'))
   \<and> (\<exists>s'. length (menuProducts (generateJSON created s')) < length (products s')
          \<and> length (menuModifiers (generateJSON created s')) < length (modifiers s'))"
proof -
  have counts:
    "getField ''totalCategories'' (getField ''metadata'' (generateJSON created s))
       = Val (Number (Fin (of_nat (length (categories s)))))"
    "getField ''totalProducts'' (getField ''metadata'' (generateJSON created s))
       = Val (Number (Fin (of_nat (length (products s)))))"
    "getField ''totalModifiers'' (getField ''metadata'' (generateJSON created s))
       = Val (Number (Fin (of_nat (length (modifiers s)))))"
    by (simp_all add: generateJSON_def count_def)
  have "length (items (getField ''menu'' (generateJSON created childless)))
          < length (categories childless)"
    by (simp add: generateJSON_def exportCategory_def categoryProducts_def childless_def
          example_defs)
  then have fewer_entries:
    "\<exists>s'. length (items (getField ''menu'' (generateJSON created s'))) < length (categories s')" ..
  have "length (menuProducts (generateJSON created orphaned)) < length (products orphaned)
      \<and> length (menuModifiers (generateJSON created orphaned)) < length (modifiers orphaned)"
    by (simp add: generateJSON_def exportCategory_def exportProduct_def categoryProducts_def
          productModifiers_def menuProducts_def menuModifiers_def orphaned_def example_defs)
  then have fewer_nested:
    "\<exists>s'. length (menuProducts (generateJSON created s')) < length (products s')
          \<and> length (menuModifiers (generateJSON created s')) < length (modifiers s')" ..
  from counts fewer_entries fewer_nested show ?thesis by blast
qed


section \<open>Referential integrity\<close>

text \<open>Values that are strictly equal are strictly equal to the same values.\<close>

lemma strict_eq_cong: "strict_eq a b \<Longrightarrow> strict_eq a c = strict_eq b c"
  by (cases a; cases b; cases c) auto

lemma or_else_usable: "usable_id v \<Longrightarrow> or_else v d = v"
  by (simp add: usable_id_def or_else_def)

lemmas linked_defs =
  referential_integrity_def products_linked_def modifiers_linked_def linked_cat_def linked_with_def

subsection \<open>The operations of the forms\<close>

lemma addCategory_integrity:
  "referential_integrity s \<Longrightarrow> referential_integrity (snd (addCategory now nameInput s))"
  by (auto simp: addCategory_def Let_def linked_defs list_all_iff list_ex_iff
        split: option.splits bool.splits)

lemma addProduct_integrity:
  "referential_integrity s \<Longrightarrow>
   list_ex (\<lambda>cat. strict_eq (cat_id cat) (Number categoryId)) (categories s) \<Longrightarrow>
   referential_integrity
     (snd (addProduct now categoryId nameInput descriptionInput price imageInput s))"
  by (auto simp: addProduct_def Let_def linked_defs list_all_iff list_ex_iff)

lemma saveModifier_integrity:
  "referential_integrity s \<Longrightarrow>
   list_ex (\<lambda>prod. strict_eq (prod_id prod) (Number productId)) (products s) \<Longrightarrow>
   referential_integrity (snd (saveModifier now productId nameInput minN maxN type position s))"
  by (auto simp: saveModifier_def Let_def linked_defs list_all_iff list_ex_iff)

text \<open>
  A modifier that \<^verbatim>\<open>deleteProduct\<close> keeps does not refer to the deleted id, so the
  product it refers to is kept too.
\<close>

lemma deleteProduct_integrity:
  assumes "referential_integrity s"
  shows "referential_integrity (snd (deleteProduct ident s))"
proof -
  have "list_ex (\<lambda>prod. strict_eq (prod_id prod) (mod_productId m))
          (filter (\<lambda>prod. \<not> strict_eq (prod_id prod) ident) (products s))"
    if "m \<in> set (modifiers s)" "\<not> strict_eq (mod_productId m) ident" for m
  proof -
    from assms that(1) obtain p
      where p: "p \<in> set (products s)" "strict_eq (prod_id p) (mod_productId m)"
      by (auto simp: linked_defs list_all_iff list_ex_iff)
    from p(2) have "strict_eq (prod_id p) ident = strict_eq (mod_productId m) ident"
      by (rule strict_eq_cong)
    with that(2) have "\<not> strict_eq (prod_id p) ident" by simp
    with p show ?thesis by (auto simp: list_ex_iff)
  qed
  with assms show ?thesis
    by (auto simp: deleteProduct_def linked_defs list_all_iff)
qed

lemma deleteModifier_integrity:
  "referential_integrity s \<Longrightarrow> referential_integrity (snd (deleteModifier ident s))"
  by (auto simp: deleteModifier_def linked_defs list_all_iff)

lemma clearAllData_integrity:
  "referential_integrity s \<Longrightarrow> referential_integrity (clearAllData confirmed s)"
  by (auto simp: clearAllData_def linked_defs)

lemma deleteCategory_products_linked:
  assumes "products_linked s"
  shows "products_linked (snd (deleteCategory ident s))"
proof -
  have "list_ex (\<lambda>cat. strict_eq (cat_id cat) (prod_categoryId p))
          (filter (\<lambda>cat. \<not> strict_eq (cat_id cat) ident) (categories s))"
    if "p \<in> set (products s)" "\<not> strict_eq (prod_categoryId p) ident" for p
  proof -
    from assms that(1) obtain c
      where c: "c \<in> set (categories s)" "strict_eq (cat_id c) (prod_categoryId p)"
      by (auto simp: products_linked_def list_all_iff list_ex_iff)
    from c(2) have "strict_eq (cat_id c) ident = strict_eq (prod_categoryId p) ident"
      by (rule strict_eq_cong)
    with that(2) have "\<not> strict_eq (cat_id c) ident" by simp
    with c show ?thesis by (auto simp: list_ex_iff)
  qed
  then show ?thesis
    by (auto simp: deleteCategory_def Let_def products_linked_def list_all_iff)
qed

subsection \<open>The walks of the import\<close>

text \<open>A property that every step keeps, thrown or not, holds where the walk ends.\<close>

lemma forEach_invariant:
  assumes "P s" and "\<And>x t. x \<in> set xs \<Longrightarrow> P t \<Longrightarrow> P (reached (f x t))"
  shows "P (reached (forEach f xs s))"
  using assms
proof (induction xs arbitrary: s)
  case Nil
  then show ?case by simp
next
  case (Cons x xs)
  from Cons.prems have step: "P (reached (f x s))" by simp
  show ?case
  proof (cases "f x s")
    case (Completed s')
    with step have "P s'" by simp
    then have "P (reached (forEach f xs s'))"
      using Cons.prems(2) by (intro Cons.IH) simp_all
    with Completed show ?thesis by simp
  next
    case (Thrown s')
    with step show ?thesis by simp
  qed
qed

lemma importModifier_linked:
  "linked_with cid (getProp ''id'' product) t \<Longrightarrow>
   linked_with cid (getProp ''id'' product) (reached (importModifier now product m t))"
  by (auto simp: importModifier_def linked_defs Let_def split: option.splits)

lemma importProduct_linked:
  assumes "linked_cat (getProp ''id'' category) t" "usable_id (getProp ''id'' product)"
  shows "linked_cat (getProp ''id'' category) (reached (importProduct now category product t))"
proof -
  let ?cid = "getProp ''id'' category" and ?pid = "getProp ''id'' product"
  let ?t1 = "t\<lparr>products := products t @
                     [\<lparr>prod_id = or_else (getProp ''id'' product) (fresh_id now),
                       prod_categoryId = getProp ''id'' category,
                       prod_name = getProp ''name'' product,
                       prod_description = or_else (getProp ''description'' product) (Str []),
                       prod_price = or_else (getProp ''price'' product) (Number (Fin 0)),
                       prod_image = or_else (getProp ''image'' product) (Str [])\<rparr>]\<rparr>"
  from assms(2) have np: "\<not> nullish product"
    by (cases product) (simp_all add: usable_id_def)
  have t1: "linked_with ?cid ?pid ?t1"
    using assms
    by (auto simp: linked_defs or_else_usable usable_id_def list_all_iff list_ex_iff)
  have weaken: "\<And>u. linked_with ?cid ?pid u \<Longrightarrow> linked_cat ?cid u"
    by (simp add: linked_with_def)
  have "linked_with ?cid ?pid (reached (forEach (importModifier now product) ms ?t1))" for ms
    by (rule forEach_invariant [where P = "linked_with ?cid ?pid", OF t1])
       (rule importModifier_linked)
  with t1 np show ?thesis
    by (auto simp: importProduct_def Let_def intro: weaken)
qed

lemma importCategory_integrity:
  assumes "referential_integrity t" "usable_id (getProp ''id'' category)"
    "list_all (\<lambda>product. usable_id (getProp ''id'' product)) (elems (getProp ''products'' category))"
  shows "referential_integrity (reached (importCategory now category t))"
proof -
  let ?cid = "getProp ''id'' category"
  let ?t1 = "t\<lparr>categories := categories t @
                     [\<lparr>cat_id = or_else (getProp ''id'' category) (fresh_id now),
                       cat_name = getProp ''name'' category\<rparr>]\<rparr>"
  from assms(2) have nc: "\<not> nullish category"
    by (cases category) (simp_all add: usable_id_def)
  have t1: "linked_cat ?cid ?t1"
    using assms(1,2)
    by (auto simp: linked_defs or_else_usable usable_id_def list_all_iff list_ex_iff)
  have "linked_cat ?cid
          (reached (forEach (importProduct now category) (elems (getProp ''products'' category)) ?t1))"
    using assms(3)
    by (intro forEach_invariant [where P = "linked_cat ?cid", OF t1] importProduct_linked)
       (simp_all add: list_all_iff)
  with t1 nc show ?thesis
    by (auto simp: importCategory_def Let_def linked_cat_def)
qed

lemma importJSON_integrity:
  assumes "referential_integrity s" "\<forall>doc. parse (trim jsonText) = Some doc \<longrightarrow> ids_given doc"
  shows "referential_integrity (snd (importJSON parse now jsonText s))"
proof (cases "parse (trim jsonText)")
  case None
  with assms(1) show ?thesis by (simp add: importJSON_def Let_def)
next
  case (Some doc)
  with assms(2) have ids: "ids_given doc" by simp
  let ?e = "s\<lparr>categories := [], products := [], modifiers := []\<rparr>"
  have e: "referential_integrity ?e"
    by (simp add: referential_integrity_def products_linked_def modifiers_linked_def)
  have "referential_integrity
          (reached (forEach (importCategory now) (elems (getProp ''menu'' doc)) ?e))"
    using ids
    by (intro forEach_invariant [where P = referential_integrity, OF e] importCategory_integrity)
       (simp_all add: ids_given_def list_all_iff)
  with Some assms(1) show ?thesis
    by (auto simp: importJSON_def Let_def split: run.splits)
qed

subsection \<open>The claim\<close>

text \<open>
  C2 as stated, that every store operation preserves referential integrity, fails:
  \<^verbatim>\<open>addProduct\<close> tests only that a category was selected (\<^verbatim>\<open>!categoryId\<close>), not that the
  id is in the categories table. On the small menu, whose references all resolve, a
  product for category 9 is accepted.
\<close>

theorem addProduct_unknown_category_breaks_integrity:
  "referential_integrity small_menu
   \<and> \<not> referential_integrity
         (snd (addProduct 30 (Fin 9) ''Fanta'' ''Orange'' (Fin 2) [] small_menu))"
  by (simp add: addProduct_def referential_integrity_def products_linked_def modifiers_linked_def
        example_defs trim_def whitespace_def isNaN_def num_lt_def)

text \<open>
  C2 amended: referential integrity is preserved by \<^verbatim>\<open>addCategory\<close>, \<^verbatim>\<open>deleteProduct\<close>,
  \<^verbatim>\<open>deleteModifier\<close> and \<^verbatim>\<open>clearAllData\<close> on every input; by \<^verbatim>\<open>addProduct\<close> when its
  category id is the id of a category of the table; by \<^verbatim>\<open>saveModifier\<close> when its product
  id is the id of a product of the table; by \<^verbatim>\<open>importJSON\<close> when every category entry
  and every product entry of the document has a usable id. After \<^verbatim>\<open>deleteCategory\<close>
  every product that is left still refers to a category of the table.
\<close>

theorem referential_integrity_preserved:
  assumes "referential_integrity s"
  shows "referential_integrity (snd (addCategory now categoryName s))
   \<and> (list_ex (\<lambda>cat. strict_eq (cat_id cat) (Number categoryId)) (categories s) \<longrightarrow>
        referential_integrity
          (snd (addProduct now categoryId productName description price imageUrl s)))
   \<and> (list_ex (\<lambda>prod. strict_eq (prod_id prod) (Number productId)) (products s) \<longrightarrow>
        referential_integrity
          (snd (saveModifier now productId modifierName minN maxN type position s)))
   \<and> referential_integrity (snd (deleteProduct deletedProduct s))
   \<and> referential_integrity (snd (deleteModifier deletedModifier s))
   \<and> referential_integrity (clearAllData confirmed s)
   \<and> ((\<forall>doc. parse (trim jsonText) = Some doc \<longrightarrow> ids_given doc) \<longrightarrow>
        referential_integrity (snd (importJSON parse now jsonText s)))
   \<and> products_linked (snd (deleteCategory deletedCategory s))"
proof -
  from assms have "products_linked s" by (simp add: referential_integrity_def)
  then have "products_linked (snd (deleteCategory deletedCategory s))"
    by (rule deleteCategory_products_linked)
  with assms show ?thesis
    by (simp add: addCategory_integrity addProduct_integrity saveModifier_integrity
          deleteProduct_integrity deleteModifier_integrity clearAllData_integrity
          importJSON_integrity)
qed

theorem referential_integrity_preserved_witness:
  "referential_integrity drafting
   \<and> referential_integrity (snd (addCategory 30 ''Sides'' drafting))
   \<and> list_ex (\<lambda>cat. strict_eq (cat_id cat) (Number (Fin 1))) (categories drafting)
   \<and> referential_integrity (snd (addProduct 30 (Fin 1) ''Fanta'' ''Orange'' (Fin 2) [] drafting))
   \<and> list_ex (\<lambda>prod. strict_eq (prod_id prod) (Number (Fin 20))) (products drafting)
   \<and> referential_integrity
       (snd (saveModifier 30 (Fin 20) ''Heat'' (Fin 0) (Fin 1) (Fin 1) (Fin 2) drafting))
   \<and> referential_integrity (snd (deleteProduct (Number (Fin 10)) drafting))
   \<and> referential_integrity (snd (deleteModifier (Number (Fin 100)) drafting))
   \<and> referential_integrity (clearAllData True drafting)
   \<and> ids_given with_ids
   \<and> referential_integrity
       (snd (importJSON (parse_as with_ids_text with_ids) 30 with_ids_text drafting))
   \<and> products_linked (snd (deleteCategory (Number (Fin 1)) drafting))"
proof -
  have integrity: "referential_integrity drafting"
    by (simp add: referential_integrity_def products_linked_def modifiers_linked_def drafting_def
          example_defs)
  have category: "list_ex (\<lambda>cat. strict_eq (cat_id cat) (Number (Fin 1))) (categories drafting)"
    by (simp add: drafting_def example_defs)
  have product: "list_ex (\<lambda>prod. strict_eq (prod_id prod) (Number (Fin 20))) (products drafting)"
    by (simp add: drafting_def example_defs)
  have ids: "ids_given with_ids"
    by (simp add: ids_given_def with_ids_def usable_id_def)
  have parsed:
    "\<forall>doc. parse_as with_ids_text with_ids (trim with_ids_text) = Some doc \<longrightarrow> ids_given doc"
    using ids by (simp add: parse_as_def)
  from referential_integrity_preserved
         [OF integrity, where now = 30 and categoryName = "''Sides''" and categoryId = "Fin 1"
            and productName = "''Fanta''" and description = "''Orange''" and price = "Fin 2"
            and imageUrl = "[]" and productId = "Fin 20" and modifierName = "''Heat''"
            and minN = "Fin 0" and maxN = "Fin 1" and type = "Fin 1" and position = "Fin 2"
            and deletedProduct = "Number (Fin 10)" and deletedModifier = "Number (Fin 100)"
            and deletedCategory = "Number (Fin 1)" and confirmed = True
            and parse = "parse_as with_ids_text with_ids" and jsonText = with_ids_text]
       integrity category product ids parsed
  show ?thesis by blast
qed


section \<open>Export followed by import\<close>

lemma nonzero_numberE: "nonzero_number v \<Longrightarrow> (\<And>r. v = Number (Fin r) \<Longrightarrow> r \<noteq> 0 \<Longrightarrow> P) \<Longrightarrow> P"
  by (cases v rule: nonzero_number.cases) auto

lemma finite_numberE: "finite_number v \<Longrightarrow> (\<And>r. v = Number (Fin r) \<Longrightarrow> P) \<Longrightarrow> P"
  by (cases v rule: finite_number.cases) auto

lemma is_stringE: "is_string v \<Longrightarrow> (\<And>t. v = Str t \<Longrightarrow> P) \<Longrightarrow> P"
  by (cases v rule: is_string.cases) auto


subsection \<open>What a parsed text looks like\<close>

lemma reads_as_JArr: "reads_as (JArr js) d = (\<exists>r ds. d = Arr r ds \<and> reads_all js ds)"
  by (cases d) simp_all

lemma reads_as_JObj: "reads_as (JObj jkvs) d = (\<exists>r kvs. d = Obj r kvs \<and> reads_props jkvs kvs)"
  by (cases d) simp_all

lemma reads_all_Cons:
  "reads_all (j # js) ds = (\<exists>d ds'. ds = d # ds' \<and> reads_as j d \<and> reads_all js ds')"
  by (cases ds) simp_all

lemma reads_props_Cons:
  "reads_props ((k, j) # jkvs) kvs =
     (\<exists>v kvs'. kvs = (k, v) # kvs' \<and> reads_as j v \<and> reads_props jkvs kvs')"
  by (cases kvs) auto

lemmas reads_inv = reads_as_JArr reads_as_JObj reads_all_Cons reads_props_Cons

lemmas reads_del = reads_as.simps(5,6) reads_all.simps(2) reads_props.simps(2)

lemma nonzero_number_simps:
  assumes "nonzero_number v"
  shows "v \<noteq> Undefined" "truthy v" "or_else v d = v" "\<not> nullish v" "reads_as (json_of v) w = (w = v)"
  using assms by (auto elim!: nonzero_numberE simp: or_else_def)

lemma finite_number_simps:
  assumes "finite_number v"
  shows "v \<noteq> Undefined" "or_else v (Number (Fin 0)) = v" "reads_as (json_of v) w = (w = v)"
  using assms by (auto elim!: finite_numberE simp: or_else_def)

lemma is_string_simps:
  assumes "is_string v"
  shows "v \<noteq> Undefined" "or_else v (Str []) = v" "reads_as (json_of v) w = (w = v)"
    "or_else v Null \<noteq> Undefined"
    "reads_as (json_of (or_else v Null)) w \<Longrightarrow> or_else w (Str []) = v"
  using assms by (auto elim!: is_stringE simp: or_else_def split: if_splits)

lemmas typed_simps = nonzero_number_simps finite_number_simps is_string_simps

subsection \<open>Walking the parsed export of a typed store\<close>

lemma option_entry:
  assumes "option_typed opt" "reads_as (stringify (exportOption opt)) d"
  shows "\<exists>r. d = Obj r [(''id'', opt_id opt), (''label'', opt_label opt), (''value'', opt_value opt)]"
  using assms
  by (auto simp: option_typed_def exportOption_def typed_simps reads_inv
        simp del: reads_as.simps(5,6) reads_all.simps(2) reads_props.simps(2))


lemma strict_eq_number: "nonzero_number b \<Longrightarrow> strict_eq a b \<Longrightarrow> a = b"
  by (cases a) (auto elim!: nonzero_numberE)

lemma importOptions_reads:
  "list_all option_typed os \<Longrightarrow> reads_all (map (\<lambda>x. stringify (exportOption x)) os) ds \<Longrightarrow>
   importOptions now ds = Some os"
proof (induction os arbitrary: ds)
  case Nil
  then show ?case by simp
next
  case (Cons opt os)
  from Cons.prems(2) obtain d ds' where ds: "ds = d # ds'"
    and d: "reads_as (stringify (exportOption opt)) d"
    and rest: "reads_all (map (\<lambda>x. stringify (exportOption x)) os) ds'"
    by (auto simp: reads_all_Cons simp del: reads_del)
  from Cons.prems(1) have typed: "option_typed opt" and "list_all option_typed os" by simp_all
  with rest have "importOptions now ds' = Some os" by (intro Cons.IH)
  moreover from option_entry [OF typed d] obtain r
    where "d = Obj r [(''id'', opt_id opt), (''label'', opt_label opt), (''value'', opt_value opt)]" ..
  ultimately show ?case
    using typed by (simp add: ds option_typed_def typed_simps)
qed

lemma modifier_entry:
  assumes "modifier_typed m" "reads_as (stringify (exportModifier m)) d"
  shows "\<exists>r r' ds.
           d = Obj r [(''id'', mod_id m), (''name'', mod_name m), (''min'', mod_min m),
                      (''max'', mod_max m), (''type'', mod_type m),
                      (''position'', mod_position m), (''options'', Arr r' ds)]
           \<and> reads_all (map (\<lambda>x. stringify (exportOption x)) (mod_options m)) ds"
  using assms
  by (auto simp: modifier_typed_def exportModifier_def typed_simps reads_inv comp_def simp del: reads_del)

lemma importModifier_reads:
  assumes "modifier_typed m" "mod_productId m = getProp ''id'' product"
    "reads_as (stringify (exportModifier m)) d"
  shows "importModifier now product d t = Completed (t\<lparr>modifiers := modifiers t @ [m]\<rparr>)"
proof -
  from modifier_entry [OF assms(1,3)] obtain r r' ds
    where d: "d = Obj r [(''id'', mod_id m), (''name'', mod_name m), (''min'', mod_min m),
                      (''max'', mod_max m), (''type'', mod_type m),
                      (''position'', mod_position m), (''options'', Arr r' ds)]"
      and ds: "reads_all (map (\<lambda>x. stringify (exportOption x)) (mod_options m)) ds"
    by blast
  from assms(1) ds have "importOptions now ds = Some (mod_options m)"
    by (intro importOptions_reads) (simp add: modifier_typed_def)
  with assms(1,2) show ?thesis
    by (simp add: d importModifier_def modifier_typed_def typed_simps)
qed

lemma forEach_importModifier_reads:
  "list_all (\<lambda>m. modifier_typed m \<and> mod_productId m = getProp ''id'' product) ms \<Longrightarrow>
   reads_all (map (\<lambda>x. stringify (exportModifier x)) ms) ds \<Longrightarrow>
   forEach (importModifier now product) ds t = Completed (t\<lparr>modifiers := modifiers t @ ms\<rparr>)"
proof (induction ms arbitrary: ds t)
  case Nil
  then show ?case by simp
next
  case (Cons m ms)
  from Cons.prems(2) obtain d ds' where ds: "ds = d # ds'"
    and d: "reads_as (stringify (exportModifier m)) d"
    and rest: "reads_all (map (\<lambda>x. stringify (exportModifier x)) ms) ds'"
    by (auto simp: reads_all_Cons simp del: reads_del)
  from Cons.prems(1) have m: "modifier_typed m" "mod_productId m = getProp ''id'' product"
    and ms: "list_all (\<lambda>m. modifier_typed m \<and> mod_productId m = getProp ''id'' product) ms"
    by simp_all
  from m d have "importModifier now product d t = Completed (t\<lparr>modifiers := modifiers t @ [m]\<rparr>)"
    by (rule importModifier_reads)
  moreover from ms rest
  have "forEach (importModifier now product) ds' (t\<lparr>modifiers := modifiers t @ [m]\<rparr>)
          = Completed (t\<lparr>modifiers := modifiers t @ [m]\<rparr>
                        \<lparr>modifiers := modifiers (t\<lparr>modifiers := modifiers t @ [m]\<rparr>) @ ms\<rparr>)"
    by (rule Cons.IH)
  ultimately show ?case by (simp add: ds)
qed

lemma product_entry:
  assumes "product_typed p" "reads_as (stringify (exportProduct s p)) d"
  shows "\<exists>r r' ds img.
           d = Obj r [(''id'', prod_id p), (''name'', prod_name p),
                      (''description'', prod_description p), (''price'', prod_price p),
                      (''image'', img), (''modifiers'', Arr r' ds)]
           \<and> or_else img (Str []) = prod_image p
           \<and> reads_all (map (\<lambda>x. stringify (exportModifier x)) (productModifiers s p)) ds"
  using assms
  by (auto simp: product_typed_def exportProduct_def typed_simps reads_inv comp_def simp del: reads_del)

lemma importProduct_reads:
  assumes "product_typed p" "prod_categoryId p = getProp ''id'' category"
    "list_all modifier_typed (modifiers s)" "reads_as (stringify (exportProduct s p)) d"
  shows "importProduct now category d t
     = Completed (t\<lparr>products := products t @ [p], modifiers := modifiers t @ productModifiers s p\<rparr>)"
proof -
  from product_entry [OF assms(1,4)] obtain r r' ds img
    where d: "d = Obj r [(''id'', prod_id p), (''name'', prod_name p),
                      (''description'', prod_description p), (''price'', prod_price p),
                      (''image'', img), (''modifiers'', Arr r' ds)]"
      and img: "or_else img (Str []) = prod_image p"
      and ds: "reads_all (map (\<lambda>x. stringify (exportModifier x)) (productModifiers s p)) ds"
    by blast
  from assms(1) have pid: "nonzero_number (prod_id p)" by (simp add: product_typed_def)
  with assms(3) have "list_all (\<lambda>m. modifier_typed m \<and> mod_productId m = getProp ''id'' d)
                         (productModifiers s p)"
    by (auto simp: d productModifiers_def list_all_iff dest: strict_eq_number)
  then have "forEach (importModifier now d) ds u
      = Completed (u\<lparr>modifiers := modifiers u @ productModifiers s p\<rparr>)" for u
    using ds by (rule forEach_importModifier_reads)
  note walk = this [unfolded d]
  from assms(1,2) show ?thesis
    by (simp add: d importProduct_def img walk product_typed_def typed_simps)
qed

lemma forEach_importProduct_reads:
  "list_all (\<lambda>p. product_typed p \<and> prod_categoryId p = getProp ''id'' category) ps \<Longrightarrow>
   list_all modifier_typed (modifiers s) \<Longrightarrow>
   reads_all (map (\<lambda>x. stringify (exportProduct s x)) ps) ds \<Longrightarrow>
   forEach (importProduct now category) ds t
     = Completed (t\<lparr>products := products t @ ps,
                    modifiers := modifiers t @ concat (map (productModifiers s) ps)\<rparr>)"
proof (induction ps arbitrary: ds t)
  case Nil
  then show ?case by simp
next
  case (Cons p ps)
  from Cons.prems(3) obtain d ds' where ds: "ds = d # ds'"
    and d: "reads_as (stringify (exportProduct s p)) d"
    and rest: "reads_all (map (\<lambda>x. stringify (exportProduct s x)) ps) ds'"
    by (auto simp: reads_all_Cons simp del: reads_del)
  from Cons.prems(1) have p: "product_typed p" "prod_categoryId p = getProp ''id'' category"
    and ps: "list_all (\<lambda>p. product_typed p \<and> prod_categoryId p = getProp ''id'' category) ps"
    by simp_all
  from p Cons.prems(2) d
  have step: "importProduct now category d t
     = Completed (t\<lparr>products := products t @ [p], modifiers := modifiers t @ productModifiers s p\<rparr>)"
    by (rule importProduct_reads)
  show ?case
    by (simp add: ds step Cons.IH [OF ps Cons.prems(2) rest])
qed

lemma category_entry:
  assumes "category_typed c" "categoryProducts s c \<noteq> []"
    "reads_as (stringify (exportCategory s c)) d"
  shows "\<exists>r r' ds.
           d = Obj r [(''id'', cat_id c), (''name'', cat_name c), (''products'', Arr r' ds)]
           \<and> reads_all (map (\<lambda>x. stringify (exportProduct s x)) (categoryProducts s c)) ds"
  using assms
  by (auto simp: category_typed_def exportCategory_def typed_simps reads_inv comp_def simp del: reads_del)

lemma importCategory_reads:
  assumes "category_typed c" "categoryProducts s c \<noteq> []"
    "list_all product_typed (products s)" "list_all modifier_typed (modifiers s)"
    "reads_as (stringify (exportCategory s c)) d"
  shows "importCategory now d t
     = Completed (t\<lparr>categories := categories t @ [c],
                    products := products t @ categoryProducts s c,
                    modifiers := modifiers t @ concat (map (productModifiers s) (categoryProducts s c))\<rparr>)"
proof -
  from category_entry [OF assms(1,2,5)] obtain r r' ds
    where d: "d = Obj r [(''id'', cat_id c), (''name'', cat_name c), (''products'', Arr r' ds)]"
      and ds: "reads_all (map (\<lambda>x. stringify (exportProduct s x)) (categoryProducts s c)) ds"
    by blast
  from assms(1) have cid: "nonzero_number (cat_id c)" by (simp add: category_typed_def)
  with assms(3) have "list_all (\<lambda>p. product_typed p \<and> prod_categoryId p = getProp ''id'' d)
                         (categoryProducts s c)"
    by (auto simp: d categoryProducts_def list_all_iff dest: strict_eq_number)
  then have "forEach (importProduct now d) ds u
      = Completed (u\<lparr>products := products u @ categoryProducts s c,
                    modifiers := modifiers u @ concat (map (productModifiers s) (categoryProducts s c))\<rparr>)" for u
    using assms(4) ds by (rule forEach_importProduct_reads)
  note walk = this [unfolded d]
  from assms(1) show ?thesis
    by (simp add: d importCategory_def walk category_typed_def typed_simps)
qed

lemma forEach_importCategory_reads:
  "list_all (\<lambda>c. category_typed c \<and> categoryProducts s c \<noteq> []) cs \<Longrightarrow>
   list_all product_typed (products s) \<Longrightarrow> list_all modifier_typed (modifiers s) \<Longrightarrow>
   reads_all (map (\<lambda>x. stringify (exportCategory s x)) cs) ds \<Longrightarrow>
   forEach (importCategory now) ds t
     = Completed (t\<lparr>categories := categories t @ cs,
                    products := products t @ concat (map (categoryProducts s) cs),
                    modifiers := modifiers t @
                       concat (map (productModifiers s) (concat (map (categoryProducts s) cs)))\<rparr>)"
proof (induction cs arbitrary: ds t)
  case Nil
  then show ?case by simp
next
  case (Cons c cs)
  from Cons.prems(4) obtain d ds' where ds: "ds = d # ds'"
    and d: "reads_as (stringify (exportCategory s c)) d"
    and rest: "reads_all (map (\<lambda>x. stringify (exportCategory s x)) cs) ds'"
    by (auto simp: reads_all_Cons simp del: reads_del)
  from Cons.prems(1) have c: "category_typed c" "categoryProducts s c \<noteq> []"
    and cs: "list_all (\<lambda>c. category_typed c \<and> categoryProducts s c \<noteq> []) cs"
    by simp_all
  from c Cons.prems(2,3) d
  have step: "importCategory now d t
     = Completed (t\<lparr>categories := categories t @ [c],
                    products := products t @ categoryProducts s c,
                    modifiers := modifiers t @ concat (map (productModifiers s) (categoryProducts s c))\<rparr>)"
    by (rule importCategory_reads)
  show ?case
    by (simp add: ds step Cons.IH [OF cs Cons.prems(2,3) rest])
qed

lemma trim_unordered_text: "trim unordered_text = unordered_text"
  by code_simp

lemma trim_small_menu_text: "trim small_menu_text = small_menu_text"
  by code_simp

subsection \<open>The claim\<close>

text \<open>
  C3 as stated, that for every state without an empty category the import of the
  exported text gives back the same tables in the same order, fails: the export lists
  the products category by category. With Taco (of Food) before Cola (of Drinks) in
  the products table, and Drinks before Food in the categories table, the import
  puts Cola first.
\<close>

theorem roundtrip_reorders_products:
  "no_empty_category unordered
   \<and> products unordered = [taco, cola]
   \<and> reads_as (stringify (generateJSON created_at unordered)) unordered_doc
   \<and> importJSON (parse_as unordered_text unordered_doc) 30 unordered_text unordered
     = (Success, unordered\<lparr>products := [cola, taco]\<rparr>)"
proof -
  have "no_empty_category unordered"
    by (simp add: no_empty_category_def unordered_def categoryProducts_def example_defs)
  moreover have "products unordered = [taco, cola]"
    by (simp add: unordered_def)
  moreover have "reads_as (stringify (generateJSON created_at unordered)) unordered_doc"
    by (simp add: generateJSON_def exportCategory_def exportProduct_def categoryProducts_def
          productModifiers_def or_else_def count_def created_at_def unordered_doc_def
          unordered_def example_defs)
  moreover have "unordered_text \<noteq> []"
    by (simp add: unordered_text_def)
  then have "importJSON (parse_as unordered_text unordered_doc) 30 unordered_text unordered
     = (Success, unordered\<lparr>products := [cola, taco]\<rparr>)"
    by (simp add: importJSON_def trim_unordered_text parse_as_def unordered_doc_def
          importCategory_def importProduct_def or_else_def unordered_def example_defs)
  ultimately show ?thesis by simp
qed

text \<open>
  C3 amended: for every state in which each category has at least one product,
  whose products and modifiers tables are grouped (products category by category in
  the order of the categories table, modifiers product by product in the order of
  the products table) and whose records are typed as in the data model with ids,
  \<^verbatim>\<open>max\<close>, \<^verbatim>\<open>type\<close> and \<^verbatim>\<open>position\<close> other than zero, \<^verbatim>\<open>importJSON\<close> applied to a JSON text of
  \<^verbatim>\<open>generateJSON()\<close> succeeds and leaves exactly the categories, products and modifiers
  (each with its options) of that state, in the same order. The text is one that
  \<^verbatim>\<open>JSON.parse\<close> reads as what \<^verbatim>\<open>JSON.stringify\<close> writes for the export.
\<close>

theorem export_import_roundtrip:
  assumes "no_empty_category s" "grouped s" "well_typed s"
    and "trim jsonText \<noteq> []" "parse (trim jsonText) = Some doc"
    and "reads_as (stringify (generateJSON created s)) doc"
  shows "importJSON parse now jsonText s'
     = (Success, s'\<lparr>categories := categories s, products := products s, modifiers := modifiers s\<rparr>)"
proof -
  let ?e = "s'\<lparr>categories := [], products := [], modifiers := []\<rparr>"
  from assms(1) have "filter (\<lambda>category. categoryProducts s category \<noteq> []) (categories s) = categories s"
    by (simp add: no_empty_category_def list_all_iff)
  with assms(6) obtain r r' ds md
    where doc: "doc = Obj r [(''menu'', Arr r' ds), (''metadata'', md)]"
      and ds: "reads_all (map (\<lambda>x. stringify (exportCategory s x)) (categories s)) ds"
    by (auto simp: generateJSON_def filter_truthy_exportCategory reads_inv comp_def simp del: reads_del)
  from assms(1,3) have "list_all (\<lambda>c. category_typed c \<and> categoryProducts s c \<noteq> []) (categories s)"
    by (simp add: no_empty_category_def well_typed_def list_all_iff)
  with assms(3) ds have "forEach (importCategory now) ds ?e
     = Completed (?e\<lparr>categories := categories ?e @ categories s,
                    products := products ?e @ concat (map (categoryProducts s) (categories s)),
                    modifiers := modifiers ?e @
                       concat (map (productModifiers s) (concat (map (categoryProducts s) (categories s))))\<rparr>)"
    by (intro forEach_importCategory_reads) (simp_all add: well_typed_def)
  also from assms(2) have "\<dots> = Completed (s'\<lparr>categories := categories s, products := products s, modifiers := modifiers s\<rparr>)"
    by (simp add: grouped_def)
  finally have walk: "forEach (importCategory now) ds ?e
     = Completed (s'\<lparr>categories := categories s, products := products s, modifiers := modifiers s\<rparr>)" .
  from assms(4,5) show ?thesis
    by (simp add: importJSON_def doc walk)
qed

theorem export_import_roundtrip_witness:
  "no_empty_category small_menu \<and> grouped small_menu \<and> well_typed small_menu
   \<and> trim small_menu_text \<noteq> []
   \<and> parse_as small_menu_text small_menu_doc (trim small_menu_text) = Some small_menu_doc
   \<and> reads_as (stringify (generateJSON created_at small_menu)) small_menu_doc
   \<and> importJSON (parse_as small_menu_text small_menu_doc) 30 small_menu_text childless
     = (Success, childless\<lparr>categories := [drinks, food], products := [cola, taco],
                           modifiers := [size_of_cola, spice_of_taco]\<rparr>)"
proof -
  have filled: "no_empty_category small_menu"
    by (simp add: no_empty_category_def categoryProducts_def example_defs)
  have order: "grouped small_menu"
    by (simp add: grouped_def categoryProducts_def productModifiers_def example_defs)
  have typed: "well_typed small_menu"
    by (simp add: well_typed_def category_typed_def product_typed_def modifier_typed_def
          option_typed_def example_defs)
  have nonempty: "trim small_menu_text \<noteq> []"
    by (simp add: trim_small_menu_text) (simp add: small_menu_text_def)
  have parsed: "parse_as small_menu_text small_menu_doc (trim small_menu_text) = Some small_menu_doc"
    by (simp add: parse_as_def trim_small_menu_text)
  have written: "reads_as (stringify (generateJSON created_at small_menu)) small_menu_doc"
    by (simp add: generateJSON_def exportCategory_def exportProduct_def exportModifier_def
          exportOption_def categoryProducts_def productModifiers_def or_else_def count_def
          created_at_def small_menu_doc_def example_defs)
  from export_import_roundtrip
         [where parse = "parse_as small_menu_text small_menu_doc" and jsonText = small_menu_text
            and s = small_menu and created = created_at and doc = small_menu_doc
            and now = 30 and s' = childless,
          OF filled order typed nonempty parsed written]
  have "importJSON (parse_as small_menu_text small_menu_doc) 30 small_menu_text childless
     = (Success, childless\<lparr>categories := categories small_menu, products := products small_menu,
                           modifiers := modifiers small_menu\<rparr>)" .
  with filled order typed nonempty parsed written show ?thesis by (simp add: small_menu_def)
qed

end
